theory Spec2Isabelle
  imports
    Main
    "HOL-Library.AList"
    "HOL-Library.Sublist"
    "HOL-Library.Char_ord"
    "HOL-Library.List_Lexorder"
    "HOL-Library.Product_Lexorder"
begin

unbundle bit_operations_syntax

section \<open>Errors\<close>

text \<open>
  Every exception of the source is a value. \<open>OSError\<close> carries the errno of the failing
  system call; \<open>SystemExit\<close> is raised by \<open>exit\<close> (through \<open>fail\<close> and
  \<open>fail_dependencies\<close>) after the message has been printed to stderr.
\<close>

datatype errno = ENOENT | EEXIST | ENOTDIR | EISDIR | ENOTEMPTY | EPERM | ELOOP | EINVAL | EXDEV

datatype error =
    OSError errno
  | AssertionError
  | TypeError
  | KeyError
  | AttributeError
  | ValueError
  | IOError errno
  | SystemExit int
  | KeyboardInterrupt
  | ExitCodeError int string
  | ChildError string

text \<open>
  The classes that \<open>except Exception\<close> catches: every exception but \<open>SystemExit\<close> and
  \<open>KeyboardInterrupt\<close>, which derive from \<open>BaseException\<close> alone.
\<close>

definition is_Exception :: "error \<Rightarrow> bool" where
  "is_Exception e = (case e of SystemExit c \<Rightarrow> False | KeyboardInterrupt \<Rightarrow> False | _ \<Rightarrow> True)"

definition then_do :: "'e + 'a \<Rightarrow> ('a \<Rightarrow> 'e + 'b) \<Rightarrow> 'e + 'b" where
  "then_do r f = (case r of Inl e \<Rightarrow> Inl e | Inr x \<Rightarrow> f x)"

lemma then_do_cong [fundef_cong]:
  "r = r' \<Longrightarrow> (\<And>x. r' = Inr x \<Longrightarrow> f x = f' x) \<Longrightarrow> then_do r f = then_do r' f'"
  by (cases r') (simp_all add: then_do_def)

lemma then_do_simps [simp]:
  "then_do (Inl e) f = Inl e"
  "then_do (Inr x) f = f x"
  by (simp_all add: then_do_def)

section \<open>The file system under the context directory\<close>

text \<open>
  The context directory is a tree of names. Every node names an inode by its number: a
  directory \<open>Dir i entries\<close> holds its entries in \<open>listdir\<close> order, a symbolic link
  \<open>Lnk i target\<close> its target string, and \<open>Hard i\<close> is a name of any other object.
  The inode table holds the permission bits of every inode, and the kind and size of the
  inodes that are neither directories nor links, so that two names of one inode share them,
  and the owner and group of every inode. A new directory or link takes the inode number
  \<open>next_inode\<close> and belongs to the calling process, whose real user id, group id and
  supplementary groups are \<open>proc_uid\<close>, \<open>proc_gid\<close> and \<open>proc_groups\<close>. All paths of the model
  are relative to the context directory (the empty path is the context directory itself);
  an absolute path, and a symbolic link that leaves the tree, is answered by \<open>outside\<close>.
\<close>

datatype fkind = KBlk | KChr | KFifo | KReg | KSock

record inode =
  ikind :: fkind
  iperm :: nat
  isize :: nat
  iuid :: nat
  igid :: nat

datatype node = Dir nat "(string \<times> node) list" | Lnk nat string | Hard nat

record stat_result =
  st_mode :: nat
  st_ino :: nat
  st_size :: nat
  st_uid :: nat
  st_gid :: nat

record filesystem =
  root :: "(string \<times> node) list"
  inodes :: "nat \<Rightarrow> inode"
  outside :: "string list \<Rightarrow> stat_result option"
  has_lchmod :: bool
  next_inode :: nat
  proc_uid :: nat
  proc_gid :: nat
  proc_groups :: "nat list"

subsection \<open>Path strings\<close>

fun split_on :: "char \<Rightarrow> string \<Rightarrow> string list" where
  "split_on c [] = [[]]"
| "split_on c (x # xs) =
     (if x = c then [] # split_on c xs
      else (case split_on c xs of [] \<Rightarrow> [[x]] | w # ws \<Rightarrow> (x # w) # ws))"

definition components :: "string \<Rightarrow> string list" where
  "components p = filter (\<lambda>c. c \<noteq> []) (split_on (CHR ''/'') p)"

definition isabs :: "string \<Rightarrow> bool" where
  "isabs p = (case p of [] \<Rightarrow> False | x # _ \<Rightarrow> x = CHR ''/'')"

text \<open>\<open>os.path.join\<close> of two paths.\<close>

definition join :: "string \<Rightarrow> string \<Rightarrow> string" where
  "join a b =
     (if isabs b then b
      else if a = [] \<or> last a = CHR ''/'' then a @ b
      else a @ ''/'' @ b)"

text \<open>
  \<open>os.path.split\<close>: the part before the last slash, without its trailing slashes
  unless it is slashes only (\<open>dirname\<close>), and the part after it (\<open>basename\<close>).
\<close>

definition basename :: "string \<Rightarrow> string" where
  "basename p = rev (takeWhile (\<lambda>c. c \<noteq> CHR ''/'') (rev p))"

definition dirname :: "string \<Rightarrow> string" where
  "dirname p =
     (let h = rev (dropWhile (\<lambda>c. c \<noteq> CHR ''/'') (rev p))
      in if h \<noteq> [] \<and> (\<exists>c \<in> set h. c \<noteq> CHR ''/'')
         then rev (dropWhile (\<lambda>c. c = CHR ''/'') (rev h)) else h)"

subsection \<open>Looking up and changing the tree at a canonical path\<close>

fun get_node :: "(string \<times> node) list \<Rightarrow> string list \<Rightarrow> node option" where
  "get_node cs [] = None"
| "get_node cs [c] = map_of cs c"
| "get_node cs (c # p) =
     (case map_of cs c of Some (Dir m cs') \<Rightarrow> get_node cs' p | _ \<Rightarrow> None)"

fun put_node :: "(string \<times> node) list \<Rightarrow> string list \<Rightarrow> node \<Rightarrow> (string \<times> node) list" where
  "put_node cs [] n = cs"
| "put_node cs [c] n = AList.update c n cs"
| "put_node cs (c # p) n =
     (case map_of cs c of
        Some (Dir m cs') \<Rightarrow> AList.update c (Dir m (put_node cs' p n)) cs
      | _ \<Rightarrow> cs)"

fun del_node :: "(string \<times> node) list \<Rightarrow> string list \<Rightarrow> (string \<times> node) list" where
  "del_node cs [] = cs"
| "del_node cs [c] = AList.delete c cs"
| "del_node cs (c # p) =
     (case map_of cs c of
        Some (Dir m cs') \<Rightarrow> AList.update c (Dir m (del_node cs' p)) cs
      | _ \<Rightarrow> cs)"

text \<open>The node at a canonical path; the empty path is the context directory.\<close>

definition node_at :: "filesystem \<Rightarrow> string list \<Rightarrow> node option" where
  "node_at w p = (if p = [] then Some (Dir 0 (root w)) else get_node (root w) p)"

fun ino_of :: "node \<Rightarrow> nat" where
  "ino_of (Dir i cs) = i"
| "ino_of (Lnk i t) = i"
| "ino_of (Hard i) = i"

definition is_dir_node :: "node option \<Rightarrow> bool" where
  "is_dir_node n = (case n of Some (Dir _ _) \<Rightarrow> True | _ \<Rightarrow> False)"

subsection \<open>Path resolution\<close>

text \<open>
  \<open>namei\<close> walks the components of a path from the canonical directory \<open>cur\<close>. It
  follows a symbolic link in the middle of a path, and at its end when \<open>fl\<close> is set, at
  most \<open>fuel\<close> times (\<open>ELOOP\<close> after 40 links, as Linux does).
\<close>

datatype resolved = At "string list" | Out "string list" | Err errno

function namei ::
  "(string \<times> node) list \<Rightarrow> nat \<Rightarrow> string list \<Rightarrow> string list \<Rightarrow> bool \<Rightarrow> resolved" where
  "namei r fuel cur [] fl = At cur"
| "namei r fuel cur (c # rest) fl =
     (if c = ''.'' then namei r fuel cur rest fl
      else if c = ''..'' then
        (if cur = [] then Out (c # rest) else namei r fuel (butlast cur) rest fl)
      else
        (case get_node r (cur @ [c]) of
           None \<Rightarrow> Err ENOENT
         | Some (Dir _ _) \<Rightarrow> namei r fuel (cur @ [c]) rest fl
         | Some (Hard _) \<Rightarrow> (if rest = [] then At (cur @ [c]) else Err ENOTDIR)
         | Some (Lnk _ t) \<Rightarrow>
             (if rest = [] \<and> \<not> fl then At (cur @ [c])
              else if fuel = 0 then Err ELOOP
              else if isabs t then Out (components t @ rest)
              else namei r (fuel - 1) cur (components t @ rest) fl)))"
  by pat_completeness auto
termination
  by (relation "inv_image (less_than <*lex*> less_than)
                  (\<lambda>(r, fuel, cur, rest, fl). (fuel, length rest))") auto

definition resolve :: "filesystem \<Rightarrow> bool \<Rightarrow> string \<Rightarrow> resolved" where
  "resolve w fl p =
     (if isabs p then Out (components p) else namei (root w) 40 [] (components p) fl)"

text \<open>
  The final name of a path to be created or removed, with the canonical path of its
  directory.
\<close>

definition resolve_parent :: "filesystem \<Rightarrow> string \<Rightarrow> error + (string list \<times> string)" where
  "resolve_parent w p =
     (let cs = components p in
      if isabs p then Inl (OSError EXDEV)
      else if cs = [] then Inl (OSError EEXIST)
      else if last cs = ''.'' \<or> last cs = ''..'' then Inl (OSError EINVAL)
      else (case namei (root w) 40 [] (butlast cs) True of
              At d \<Rightarrow> if is_dir_node (node_at w d) then Inr (d, last cs)
                      else Inl (OSError ENOTDIR)
            | Out q \<Rightarrow> Inl (OSError EXDEV)
            | Err e \<Rightarrow> Inl (OSError e)))"

subsection \<open>\<open>stat\<close> and the \<open>stat\<close> module\<close>

definition S_IFMT :: "nat \<Rightarrow> nat" where "S_IFMT m = m AND 61440"
definition S_IMODE :: "nat \<Rightarrow> nat" where "S_IMODE m = m AND 4095"

definition S_IFIFO :: nat where "S_IFIFO = 4096"
definition S_IFCHR :: nat where "S_IFCHR = 8192"
definition S_IFDIR :: nat where "S_IFDIR = 16384"
definition S_IFBLK :: nat where "S_IFBLK = 24576"
definition S_IFREG :: nat where "S_IFREG = 32768"
definition S_IFLNK :: nat where "S_IFLNK = 40960"
definition S_IFSOCK :: nat where "S_IFSOCK = 49152"

definition S_ISBLK :: "nat \<Rightarrow> bool" where "S_ISBLK m = (S_IFMT m = S_IFBLK)"
definition S_ISCHR :: "nat \<Rightarrow> bool" where "S_ISCHR m = (S_IFMT m = S_IFCHR)"
definition S_ISDIR :: "nat \<Rightarrow> bool" where "S_ISDIR m = (S_IFMT m = S_IFDIR)"
definition S_ISFIFO :: "nat \<Rightarrow> bool" where "S_ISFIFO m = (S_IFMT m = S_IFIFO)"
definition S_ISLNK :: "nat \<Rightarrow> bool" where "S_ISLNK m = (S_IFMT m = S_IFLNK)"
definition S_ISREG :: "nat \<Rightarrow> bool" where "S_ISREG m = (S_IFMT m = S_IFREG)"
definition S_ISSOCK :: "nat \<Rightarrow> bool" where "S_ISSOCK m = (S_IFMT m = S_IFSOCK)"

fun kind_bits :: "fkind \<Rightarrow> nat" where
  "kind_bits KBlk = S_IFBLK"
| "kind_bits KChr = S_IFCHR"
| "kind_bits KFifo = S_IFIFO"
| "kind_bits KReg = S_IFREG"
| "kind_bits KSock = S_IFSOCK"

text \<open>
  What \<open>lstat\<close> reports for a node. The size of a directory is reported as 0:
  \<open>stat_item\<close> discards it.
\<close>

fun stat_node :: "filesystem \<Rightarrow> node \<Rightarrow> stat_result" where
  "stat_node w (Dir i cs) =
     \<lparr>st_mode = S_IFDIR + (iperm (inodes w i) AND 4095), st_ino = i, st_size = 0,
      st_uid = iuid (inodes w i), st_gid = igid (inodes w i)\<rparr>"
| "stat_node w (Lnk i t) =
     \<lparr>st_mode = S_IFLNK + (iperm (inodes w i) AND 4095), st_ino = i, st_size = length t,
      st_uid = iuid (inodes w i), st_gid = igid (inodes w i)\<rparr>"
| "stat_node w (Hard i) =
     \<lparr>st_mode = kind_bits (ikind (inodes w i)) + (iperm (inodes w i) AND 4095),
      st_ino = i, st_size = isize (inodes w i),
      st_uid = iuid (inodes w i), st_gid = igid (inodes w i)\<rparr>"

definition stat_with :: "filesystem \<Rightarrow> bool \<Rightarrow> string \<Rightarrow> error + stat_result" where
  "stat_with w fl p =
     (case resolve w fl p of
        At cp \<Rightarrow> (case node_at w cp of
                    Some n \<Rightarrow> Inr (stat_node w n)
                  | None \<Rightarrow> Inl (OSError ENOENT))
      | Out q \<Rightarrow> (case outside w q of Some st \<Rightarrow> Inr st | None \<Rightarrow> Inl (OSError ENOENT))
      | Err e \<Rightarrow> Inl (OSError e))"

definition os_stat :: "filesystem \<Rightarrow> string \<Rightarrow> error + stat_result" where
  "os_stat w p = stat_with w True p"

definition os_lstat :: "filesystem \<Rightarrow> string \<Rightarrow> error + stat_result" where
  "os_lstat w p = stat_with w False p"

definition exists :: "filesystem \<Rightarrow> string \<Rightarrow> bool" where
  "exists w p = (case os_stat w p of Inr st \<Rightarrow> True | Inl e \<Rightarrow> False)"

definition lexists :: "filesystem \<Rightarrow> string \<Rightarrow> bool" where
  "lexists w p = (case os_lstat w p of Inr st \<Rightarrow> True | Inl e \<Rightarrow> False)"

definition isdir :: "filesystem \<Rightarrow> string \<Rightarrow> bool" where
  "isdir w p = (case os_stat w p of Inr st \<Rightarrow> S_ISDIR (st_mode st) | Inl e \<Rightarrow> False)"

definition isfile :: "filesystem \<Rightarrow> string \<Rightarrow> bool" where
  "isfile w p = (case os_stat w p of Inr st \<Rightarrow> S_ISREG (st_mode st) | Inl e \<Rightarrow> False)"

definition islink :: "filesystem \<Rightarrow> string \<Rightarrow> bool" where
  "islink w p = (case os_lstat w p of Inr st \<Rightarrow> S_ISLNK (st_mode st) | Inl e \<Rightarrow> False)"

subsection \<open>System calls that change the tree\<close>

definition default_dir_mode :: nat where "default_dir_mode = 493"

definition os_listdir :: "filesystem \<Rightarrow> string \<Rightarrow> error + string list" where
  "os_listdir w p =
     (case resolve w True p of
        At cp \<Rightarrow> (case node_at w cp of
                    Some (Dir m cs) \<Rightarrow> Inr (map fst cs)
                  | Some _ \<Rightarrow> Inl (OSError ENOTDIR)
                  | None \<Rightarrow> Inl (OSError ENOENT))
      | Out q \<Rightarrow> Inl (OSError EXDEV)
      | Err e \<Rightarrow> Inl (OSError e))"

definition os_readlink :: "filesystem \<Rightarrow> string \<Rightarrow> error + string" where
  "os_readlink w p =
     (case resolve w False p of
        At cp \<Rightarrow> (case node_at w cp of
                    Some (Lnk m t) \<Rightarrow> Inr t
                  | Some _ \<Rightarrow> Inl (OSError EINVAL)
                  | None \<Rightarrow> Inl (OSError ENOENT))
      | Out q \<Rightarrow> Inl (OSError EXDEV)
      | Err e \<Rightarrow> Inl (OSError e))"

text \<open>Creating the name \<open>p\<close> for the node \<open>n\<close>: the name must be free.\<close>

definition create_at :: "filesystem \<Rightarrow> string \<Rightarrow> node \<Rightarrow> error + filesystem" where
  "create_at w p n =
     (case resolve_parent w p of
        Inl e \<Rightarrow> Inl e
      | Inr (d, name) \<Rightarrow>
          (if get_node (root w) (d @ [name]) \<noteq> None then Inl (OSError EEXIST)
           else Inr (w\<lparr>root := put_node (root w) (d @ [name]) n\<rparr>)))"

text \<open>The inode of a new directory or link, with its permission bits.\<close>

definition new_inode :: "nat \<Rightarrow> filesystem \<Rightarrow> filesystem" where
  "new_inode mode w =
     w\<lparr>inodes := (inodes w)(next_inode w :=
                  (inodes w (next_inode w))\<lparr>iperm := mode, iuid := proc_uid w, igid := proc_gid w\<rparr>),
       next_inode := Suc (next_inode w)\<rparr>"

definition os_mkdir :: "filesystem \<Rightarrow> string \<Rightarrow> error + filesystem" where
  "os_mkdir w p =
     (case create_at w p (Dir (next_inode w) []) of
        Inl e \<Rightarrow> Inl e
      | Inr w' \<Rightarrow> Inr (new_inode default_dir_mode w'))"

text \<open>\<open>os.symlink(src, path)\<close>; \<open>src\<close> may be Python's \<open>None\<close>, a \<open>TypeError\<close>.\<close>

definition os_symlink :: "filesystem \<Rightarrow> string option \<Rightarrow> string \<Rightarrow> error + filesystem" where
  "os_symlink w src p =
     (case src of
        None \<Rightarrow> Inl TypeError
      | Some t \<Rightarrow>
          (case create_at w p (Lnk (next_inode w) t) of
             Inl e \<Rightarrow> Inl e
           | Inr w' \<Rightarrow> Inr (new_inode 511 w')))"

text \<open>\<open>os.link(target, path)\<close>: a second name for what \<open>target\<close> names (not followed).\<close>

definition os_link :: "filesystem \<Rightarrow> string \<Rightarrow> string \<Rightarrow> error + filesystem" where
  "os_link w target p =
     (case resolve w False target of
        At tp \<Rightarrow> (case node_at w tp of
                    Some (Dir m cs) \<Rightarrow> Inl (OSError EPERM)
                  | Some n \<Rightarrow> create_at w p n
                  | None \<Rightarrow> Inl (OSError ENOENT))
      | Out q \<Rightarrow> Inl (OSError EXDEV)
      | Err e \<Rightarrow> Inl (OSError e))"

definition os_remove :: "filesystem \<Rightarrow> string \<Rightarrow> error + filesystem" where
  "os_remove w p =
     (case resolve w False p of
        At cp \<Rightarrow> (case node_at w cp of
                    Some (Dir m cs) \<Rightarrow> Inl (OSError EISDIR)
                  | Some n \<Rightarrow> Inr (w\<lparr>root := del_node (root w) cp\<rparr>)
                  | None \<Rightarrow> Inl (OSError ENOENT))
      | Out q \<Rightarrow> Inl (OSError EXDEV)
      | Err e \<Rightarrow> Inl (OSError e))"

definition os_rmdir :: "filesystem \<Rightarrow> string \<Rightarrow> error + filesystem" where
  "os_rmdir w p =
     (case resolve w False p of
        At cp \<Rightarrow> (if cp = [] then Inl (OSError EINVAL)
                  else (case node_at w cp of
                    Some (Dir m []) \<Rightarrow> Inr (w\<lparr>root := del_node (root w) cp\<rparr>)
                  | Some (Dir m (c # cs)) \<Rightarrow> Inl (OSError ENOTEMPTY)
                  | Some _ \<Rightarrow> Inl (OSError ENOTDIR)
                  | None \<Rightarrow> Inl (OSError ENOENT)))
      | Out q \<Rightarrow> Inl (OSError EXDEV)
      | Err e \<Rightarrow> Inl (OSError e))"

text \<open>
  \<open>os.rename(src, dst)\<close>. An existing \<open>dst\<close> is replaced when it is an empty directory
  and \<open>src\<close> a directory, or when neither is a directory; a directory cannot be moved
  below itself.
\<close>

definition move_node :: "filesystem \<Rightarrow> string list \<Rightarrow> node \<Rightarrow> string list \<Rightarrow> filesystem" where
  "move_node w sp sn dp = w\<lparr>root := put_node (del_node (root w) sp) dp sn\<rparr>"

definition os_rename :: "filesystem \<Rightarrow> string \<Rightarrow> string \<Rightarrow> error + filesystem" where
  "os_rename w src dst =
     (case resolve w False src of
        Out q \<Rightarrow> Inl (OSError EXDEV)
      | Err e \<Rightarrow> Inl (OSError e)
      | At sp \<Rightarrow>
          (case node_at w sp of
             None \<Rightarrow> Inl (OSError ENOENT)
           | Some sn \<Rightarrow>
               (case resolve_parent w dst of
                  Inl e \<Rightarrow> Inl e
                | Inr (d, name) \<Rightarrow>
                    (let dp = d @ [name] in
                     if sp = [] then Inl (OSError EINVAL)
                     else if sp = dp then Inr w
                     else if is_dir_node (Some sn) \<and> prefix sp dp then Inl (OSError EINVAL)
                     else (case get_node (root w) dp of
                             None \<Rightarrow> Inr (move_node w sp sn dp)
                           | Some (Dir m []) \<Rightarrow>
                               (if is_dir_node (Some sn) then Inr (move_node w sp sn dp)
                                else Inl (OSError EISDIR))
                           | Some (Dir m (c # cs)) \<Rightarrow>
                               (if is_dir_node (Some sn) then Inl (OSError ENOTEMPTY)
                                else Inl (OSError EISDIR))
                           | Some dn \<Rightarrow>
                               (if is_dir_node (Some sn) then Inl (OSError ENOTDIR)
                                else if sn = dn \<and> (case sn of Hard i \<Rightarrow> True | _ \<Rightarrow> False)
                                then Inr w
                                else Inr (move_node w sp sn dp)))))))"

text \<open>Setting the permission bits of the node at a canonical path.\<close>

definition set_perm :: "filesystem \<Rightarrow> string list \<Rightarrow> nat \<Rightarrow> error + filesystem" where
  "set_perm w cp mode =
     (case node_at w cp of
        None \<Rightarrow> Inl (OSError ENOENT)
      | Some n \<Rightarrow>
          Inr (w\<lparr>inodes := (inodes w)(ino_of n := (inodes w (ino_of n))\<lparr>iperm := mode AND 4095\<rparr>)\<rparr>))"

definition chmod_with :: "filesystem \<Rightarrow> bool \<Rightarrow> string \<Rightarrow> nat \<Rightarrow> error + filesystem" where
  "chmod_with w fl p mode =
     (case resolve w fl p of
        At cp \<Rightarrow> set_perm w cp mode
      | Out q \<Rightarrow> Inl (OSError EXDEV)
      | Err e \<Rightarrow> Inl (OSError e))"

definition os_chmod :: "filesystem \<Rightarrow> string \<Rightarrow> nat \<Rightarrow> error + filesystem" where
  "os_chmod w p mode = chmod_with w True p mode"

definition os_lchmod :: "filesystem \<Rightarrow> string \<Rightarrow> nat \<Rightarrow> error + filesystem" where
  "os_lchmod w p mode = chmod_with w False p mode"

text \<open>
  \<open>os.path.samefile\<close>: both paths are followed; two names are the same file when they
  reach the same inode or the same directory. Nothing outside the context directory is the
  same file as something inside it.
\<close>

definition samefile :: "filesystem \<Rightarrow> string \<Rightarrow> string \<Rightarrow> error + bool" where
  "samefile w a b =
     (case os_stat w a of
        Inl e \<Rightarrow> Inl e
      | Inr sa \<Rightarrow>
          (case os_stat w b of
             Inl e \<Rightarrow> Inl e
           | Inr sb \<Rightarrow>
               (case (resolve w True a, resolve w True b) of
                  (At pa, At pb) \<Rightarrow>
                    Inr (pa = pb \<or>
                         (case (node_at w pa, node_at w pb) of
                            (Some (Hard i), Some (Hard j)) \<Rightarrow> i = j
                          | _ \<Rightarrow> False))
                | (Out qa, Out qb) \<Rightarrow> Inr (qa = qb)
                | _ \<Rightarrow> Inr False)))"

text \<open>
  \<open>os.makedirs\<close>: create the missing ancestors first (tolerating \<open>EEXIST\<close> there), then
  the leaf with \<open>mkdir\<close>.
\<close>

definition makedirs_head :: "string \<Rightarrow> string" where
  "makedirs_head name = (if basename name = [] then dirname (dirname name) else dirname name)"

definition makedirs_tail :: "string \<Rightarrow> string" where
  "makedirs_tail name = (if basename name = [] then basename (dirname name) else basename name)"

text \<open>
  A system call fails without a change. A function that makes several calls may fail after
  some of them: its error carries the file system as it is at the failure.
\<close>

definition sys :: "'s \<Rightarrow> error + 'a \<Rightarrow> (error \<times> 's) + 'a" where
  "sys w r = (case r of Inl e \<Rightarrow> Inl (e, w) | Inr x \<Rightarrow> Inr x)"

function makedirs :: "filesystem \<Rightarrow> string \<Rightarrow> (error \<times> filesystem) + filesystem" where
  "makedirs w name =
     (if makedirs_head name \<noteq> [] \<and> makedirs_tail name \<noteq> [] \<and> \<not> exists w (makedirs_head name)
      then
        (case makedirs w (makedirs_head name) of
           Inl (e, w') \<Rightarrow>
             (if e = OSError EEXIST
              then (if makedirs_tail name = ''.'' then Inr w' else sys w' (os_mkdir w' name))
              else Inl (e, w'))
         | Inr w' \<Rightarrow> (if makedirs_tail name = ''.'' then Inr w' else sys w' (os_mkdir w' name)))
      else sys w (os_mkdir w name))"
  by pat_completeness auto

lemma length_dirname_basename: "length (dirname p) + length (basename p) \<le> length p"
proof -
  let ?P = "\<lambda>c. c \<noteq> CHR ''/''"
  have "length (takeWhile ?P (rev p)) + length (dropWhile ?P (rev p)) = length p"
    by (metis length_append length_rev takeWhile_dropWhile_id)
  moreover have "length (dirname p) \<le> length (dropWhile ?P (rev p))"
    unfolding dirname_def Let_def
    by (simp add: length_dropWhile_le)
  ultimately show ?thesis by (simp add: basename_def)
qed

lemma length_makedirs_head:
  "makedirs_tail name \<noteq> [] \<Longrightarrow> length (makedirs_head name) < length name"
proof (cases "basename name = []")
  case True
  assume "makedirs_tail name \<noteq> []"
  with True have a: "0 < length (basename (dirname name))"
    by (simp add: makedirs_tail_def)
  have h: "makedirs_head name = dirname (dirname name)"
    using True by (simp add: makedirs_head_def)
  show ?thesis
    unfolding h
    using a length_dirname_basename [of name] length_dirname_basename [of "dirname name"]
    by linarith
next
  case False
  then have a: "0 < length (basename name)" by simp
  have h: "makedirs_head name = dirname name"
    using False by (simp add: makedirs_head_def)
  show ?thesis
    unfolding h using a length_dirname_basename [of name] by linarith
qed

termination makedirs
  by (relation "measure (\<lambda>(w, name). length name)") (auto simp: length_makedirs_head)

declare makedirs.simps [simp del]


definition mkdir :: "filesystem \<Rightarrow> string \<Rightarrow> (error \<times> filesystem) + filesystem" where
  "mkdir w p = sys w (os_mkdir w p)"

definition ensure_directory_exists ::
  "filesystem \<Rightarrow> string \<Rightarrow> (filesystem \<Rightarrow> string \<Rightarrow> (error \<times> filesystem) + filesystem)
     \<Rightarrow> (error \<times> filesystem) + filesystem" where
  "ensure_directory_exists w dir_path create_fcn =
     (if \<not> isdir w dir_path then create_fcn w dir_path else Inr w)"

text \<open>Decimal digits of a number: Python's \<open>str\<close> of an inode number.\<close>

definition digit_char :: "nat \<Rightarrow> char" where
  "digit_char d = ''0123456789'' ! d"

function str_nat :: "nat \<Rightarrow> string" where
  "str_nat n = (if n < 10 then [digit_char n] else str_nat (n div 10) @ [digit_char (n mod 10)])"
  by pat_completeness auto
termination
  by (relation "measure (\<lambda>n. n)") auto

declare str_nat.simps [simp del]

section \<open>Scanner and snapshot store\<close>

definition META_DIR_NAME :: string where "META_DIR_NAME = ''.pmatic''"
definition TRASH_DIR_NAME :: string where "TRASH_DIR_NAME = ''.trash_cans''"

definition STAT_TESTS :: "((nat \<Rightarrow> bool) \<times> string) list" where
  "STAT_TESTS =
     [(S_ISBLK, ''BLK''), (S_ISCHR, ''CHR''), (S_ISDIR, ''DIR''), (S_ISFIFO, ''FIFO''),
      (S_ISLNK, ''LNK''), (S_ISREG, ''REG''), (S_ISSOCK, ''SOCK'')]"

text \<open>
  The context path, to which every path of the model is relative, and the path of the
  metadata directory in it.
\<close>

definition context_path :: string where "context_path = []"

definition meta_path :: "string \<Rightarrow> string" where
  "meta_path ctx = join ctx META_DIR_NAME"

text \<open>
  A snapshot record is the tuple \<open>(format, mode, size, inode, symlink)\<close>; a snapshot is a
  dictionary from keys to records, kept as an association list in the order of insertion.
\<close>

type_synonym snapshot_record = "string \<times> nat \<times> nat \<times> nat \<times> string option"
type_synonym snapshot = "(string \<times> snapshot_record) list"

fun decode_loop ::
  "((nat \<Rightarrow> bool) \<times> string) list \<Rightarrow> nat \<Rightarrow> string option \<Rightarrow> error + string option" where
  "decode_loop [] format_code format = Inr format"
| "decode_loop ((test_fcn, name) # tests) format_code format =
     (if test_fcn format_code
      then (if format \<noteq> None then Inl AssertionError
            else decode_loop tests format_code (Some name))
      else decode_loop tests format_code format)"

definition decode_format :: "nat \<Rightarrow> error + string" where
  "decode_format format_code =
     (case decode_loop STAT_TESTS format_code None of
        Inl e \<Rightarrow> Inl e
      | Inr None \<Rightarrow> Inl AssertionError
      | Inr (Some format) \<Rightarrow> if format = [] then Inl AssertionError else Inr format)"

text \<open>
  \<open>stat_item\<close>; the key is the path itself, which is already relative to the base path.
\<close>

definition stat_item ::
  "filesystem \<Rightarrow> string \<Rightarrow> string \<Rightarrow> error + (string \<times> snapshot_record)" where
  "stat_item w file_name dir_path =
     (let path = join dir_path file_name in
      then_do (os_lstat w path) (\<lambda>st.
      then_do (decode_format (S_IFMT (st_mode st))) (\<lambda>format.
      let mode = S_IMODE (st_mode st);
          size = (if format \<in> {''REG'', ''LNK''} then st_size st else 0);
          inode = (if format \<notin> {''DIR'', ''LNK''} then st_ino st else 0)
      in then_do (if format = ''LNK'' then map_sum id Some (os_readlink w path) else Inr None)
           (\<lambda>symlink. Inr (path, format, mode, size, inode, symlink)))))"

text \<open>
  The body of the loop of \<open>scan_directory\<close> for one directory that \<open>os.walk\<close> yields:
  \<open>dir_names\<close> are the entries that are directories when followed, \<open>file_names\<close> the
  others. It returns the dictionary and the directory names left to walk into.
\<close>

fun scan_dir_names ::
  "filesystem \<Rightarrow> string list \<Rightarrow> string \<Rightarrow> string list \<Rightarrow> snapshot \<times> string list
     \<Rightarrow> error + (snapshot \<times> string list)" where
  "scan_dir_names w exclude_paths dir_path [] (result, remove_dir_names) =
     Inr (result, remove_dir_names)"
| "scan_dir_names w exclude_paths dir_path (dir_name # dir_names) (result, remove_dir_names) =
     then_do (stat_item w dir_name dir_path) (\<lambda>(key, format, mode, size, inode, symlink).
       if key \<in> set exclude_paths
       then scan_dir_names w exclude_paths dir_path dir_names
              (result, remove_dir_names @ [dir_name])
       else scan_dir_names w exclude_paths dir_path dir_names
              (AList.update key (format, mode, size, inode, None) result, remove_dir_names))"

fun scan_file_names ::
  "filesystem \<Rightarrow> string \<Rightarrow> string list \<Rightarrow> snapshot \<Rightarrow> error + snapshot" where
  "scan_file_names w dir_path [] result = Inr result"
| "scan_file_names w dir_path (file_name # file_names) result =
     then_do (stat_item w file_name dir_path) (\<lambda>(key, format, mode, size, inode, symlink).
       scan_file_names w dir_path file_names
         (AList.update key (format, mode, size, inode, symlink) result))"

definition scan_body ::
  "filesystem \<Rightarrow> string list \<Rightarrow> string \<Rightarrow> string list \<Rightarrow> snapshot
     \<Rightarrow> error + (snapshot \<times> string list)" where
  "scan_body w exclude_paths dir_path names result =
     (let dir_names = filter (\<lambda>name. isdir w (join dir_path name)) names;
          file_names = filter (\<lambda>name. \<not> isdir w (join dir_path name)) names
      in then_do (scan_dir_names w exclude_paths dir_path dir_names (result, []))
           (\<lambda>(result, remove_dir_names).
              then_do (scan_file_names w dir_path file_names result) (\<lambda>result.
                Inr (result, foldl (\<lambda>ds d. remove1 d ds) dir_names remove_dir_names))))"

text \<open>
  \<open>os.walk\<close>, top down and not following links: after the body has run for a directory,
  the walk enters, in order, each remaining directory name that is not a symbolic link. The
  recursion is on the directory that \<open>listdir\<close> reads.
\<close>

fun walk ::
  "filesystem \<Rightarrow> string list \<Rightarrow> string \<Rightarrow> string list \<Rightarrow> (string \<times> node) list \<Rightarrow> snapshot
     \<Rightarrow> error + snapshot" where
  "walk w exclude_paths dir_path dir_names [] result = Inr result"
| "walk w exclude_paths dir_path dir_names ((name, n) # entries) result =
     then_do
       (if name \<in> set dir_names \<and> \<not> islink w (join dir_path name)
        then (case n of
                Dir m cs \<Rightarrow>
                  then_do (scan_body w exclude_paths (join dir_path name) (map fst cs) result)
                    (\<lambda>(result, dir_names'). walk w exclude_paths (join dir_path name) dir_names' cs result)
              | _ \<Rightarrow> Inr result)
        else Inr result)
       (\<lambda>result. walk w exclude_paths dir_path dir_names entries result)"

definition scan_directory :: "filesystem \<Rightarrow> string list \<Rightarrow> error + snapshot" where
  "scan_directory w exclude_paths =
     (let exclude_paths = (if exclude_paths = [] then [META_DIR_NAME, TRASH_DIR_NAME]
                           else exclude_paths)
      in then_do (scan_body w exclude_paths context_path (map fst (root w)) [])
           (\<lambda>(result, dir_names). walk w exclude_paths context_path dir_names (root w) result))"

definition lchmod :: "filesystem \<Rightarrow> string \<Rightarrow> nat \<Rightarrow> error + filesystem" where
  "lchmod w path mode =
     (if islink w path
      then (if has_lchmod w then os_lchmod w path mode else Inr w)
      else os_chmod w path mode)"

subsection \<open>The trash can\<close>

text \<open>
  A trash can is made for one revert, at the time \<open>now\<close> (the ISO format of
  \<open>datetime.utcnow()\<close>).
\<close>

record TrashCan =
  tc_context_path :: string
  trash_path :: string

definition new_TrashCan :: "string \<Rightarrow> string \<Rightarrow> TrashCan" where
  "new_TrashCan ctx now =
     \<lparr>tc_context_path = ctx, trash_path = join (join ctx TRASH_DIR_NAME) now\<rparr>"

definition trash ::
  "TrashCan \<Rightarrow> string \<Rightarrow> filesystem \<Rightarrow> (error \<times> filesystem) + filesystem" where
  "trash self rel_path w =
     (if isabs rel_path then Inl (AssertionError, w)
      else
        let abs_path = join (tc_context_path self) rel_path;
            rel_dir_path = dirname rel_path;
            dest_dir_path = join (trash_path self) rel_dir_path;
            dest_path = join (trash_path self) rel_path
        in then_do (ensure_directory_exists w dest_dir_path makedirs) (\<lambda>w.
             if isdir w abs_path \<and> exists w dest_path
             then sys w (os_rmdir w abs_path)
             else sys w (os_rename w abs_path dest_path)))"

subsection \<open>Restoring a snapshot\<close>

fun strip_permissions ::
  "snapshot_record option \<Rightarrow> (string \<times> nat \<times> nat \<times> string option) option" where
  "strip_permissions None = None"
| "strip_permissions (Some (format, mode, fsize, inode, symlink)) =
     Some (format, fsize, inode, symlink)"

text \<open>The first loop of \<open>restore_snapshot\<close>: delete anything new.\<close>

fun delete_new ::
  "TrashCan \<Rightarrow> snapshot \<Rightarrow> string \<Rightarrow> (string \<times> snapshot_record) list \<Rightarrow> filesystem
     \<Rightarrow> (error \<times> filesystem) + filesystem" where
  "delete_new trash_can snapshot_dict ctx [] w = Inr w"
| "delete_new trash_can snapshot_dict ctx ((key, record) # items_to_check) w =
     (let matching_record = map_of snapshot_dict key in
      if strip_permissions (Some record) \<noteq> strip_permissions matching_record
      then
        (let path = join ctx key in
         if lexists w path
         then then_do (trash trash_can key w)
                (\<lambda>w. delete_new trash_can snapshot_dict ctx items_to_check w)
         else delete_new trash_can snapshot_dict ctx items_to_check w)
      else delete_new trash_can snapshot_dict ctx items_to_check w)"

text \<open>The second loop: restore anything old, and set the recorded mode.\<close>

fun restore_old ::
  "string \<Rightarrow> (string \<times> snapshot_record) list \<Rightarrow> filesystem
     \<Rightarrow> (error \<times> filesystem) + filesystem" where
  "restore_old ctx [] w = Inr w"
| "restore_old ctx ((key, format, mode, fsize, inode, symlink) # items) w =
     (let path = join ctx key in
      then_do
        (if \<not> exists w path
         then (if format = ''DIR'' then sys w (os_mkdir w path)
               else if format = ''LNK'' then sys w (os_symlink w symlink path)
               else
                 (let target = join (join (meta_path ctx) ''inode_snapshots'') (str_nat inode)
                  in sys w (os_link w target path)))
         else Inr w)
        (\<lambda>w. then_do (sys w (lchmod w path mode)) (\<lambda>w. restore_old ctx items w)))"

definition restore_snapshot ::
  "string \<Rightarrow> snapshot \<Rightarrow> filesystem \<Rightarrow> (error \<times> filesystem) + filesystem" where
  "restore_snapshot now snapshot_dict w =
     then_do (sys w (scan_directory w [])) (\<lambda>current_scan.
       let trash_can = new_TrashCan context_path now;
           items_to_check = sort_key fst current_scan
       in then_do (delete_new trash_can snapshot_dict context_path items_to_check w) (\<lambda>w.
            restore_old context_path (sort_key fst snapshot_dict) w))"

subsection \<open>Creating a snapshot\<close>

text \<open>The loop of \<open>create_snapshot\<close> over the items of the scan.\<close>

fun backup_items ::
  "string \<Rightarrow> string \<Rightarrow> (string \<times> snapshot_record) list \<Rightarrow> filesystem
     \<Rightarrow> (error \<times> filesystem) + filesystem" where
  "backup_items ctx inode_dir [] w = Inr w"
| "backup_items ctx inode_dir ((key, format, mode, fsize, inode, symlink) # items) w =
     (let path = join ctx key in
      if \<not> exists w path then Inl (AssertionError, w)
      else
        then_do
          (if format \<notin> {''DIR'', ''LNK''}
           then
             (let inode_file = join inode_dir (str_nat inode) in
              then_do
                (if exists w inode_file
                 then then_do (sys w (samefile w path inode_file)) (\<lambda>same.
                        if \<not> same then sys w (os_remove w inode_file) else Inr w)
                 else Inr w)
                (\<lambda>w. if \<not> exists w inode_file then sys w (os_link w path inode_file)
                     else Inr w))
           else Inr w)
          (\<lambda>w. then_do
                 (if format = ''REG''
                  then (let new_mode = mode AND 3949 in sys w (lchmod w path new_mode))
                  else Inr w)
                 (\<lambda>w. backup_items ctx inode_dir items w)))"

definition create_snapshot ::
  "filesystem \<Rightarrow> (error \<times> filesystem) + (filesystem \<times> snapshot)" where
  "create_snapshot w =
     then_do (sys w (scan_directory w [])) (\<lambda>result.
       let inode_dir = join (meta_path context_path) ''inode_snapshots'' in
       then_do (ensure_directory_exists w inode_dir makedirs) (\<lambda>w.
         then_do (backup_items context_path inode_dir result w) (\<lambda>w. Inr (w, result))))"

section \<open>Event log\<close>

definition EVENT_TYPES :: "string list" where
  "EVENT_TYPES = [''started'', ''finished'', ''failed'', ''reverted'']"

text \<open>
  An event; \<open>event_id\<close> is its attribute \<open>id\<close>, \<open>when_utc\<close> its attribute \<open>when\<close>.
  The keyword attributes \<open>snapshot\<close>, \<open>exit_code\<close> and \<open>exception\<close> are \<open>None\<close>
  when the event has no such attribute.
\<close>

record Event =
  file_type :: string
  pipeline_name :: string
  what :: string
  parent_event_id :: "string option"
  when_utc :: nat
  event_id :: string
  snapshot :: "snapshot option"
  exit_code :: "int option"
  exception :: "string option"

record kwds =
  kw_snapshot :: "snapshot option"
  kw_exit_code :: "int option"
  kw_exception :: "string option"

definition no_kwds :: kwds where
  "no_kwds = \<lparr>kw_snapshot = None, kw_exit_code = None, kw_exception = None\<rparr>"

text \<open>
  \<open>Event.__init__\<close>; \<open>uuid\<close> is what \<open>gen_uuid_str\<close> returns and \<open>now\<close> what
  \<open>datetime.utcnow\<close> returns at this call.
\<close>

definition new_Event ::
  "string \<Rightarrow> nat \<Rightarrow> string \<Rightarrow> string \<Rightarrow> string option \<Rightarrow> kwds \<Rightarrow> error + Event" where
  "new_Event uuid now pipeline_name' what' parent_event_id' kw =
     (if what' \<notin> set EVENT_TYPES then Inl AssertionError
      else Inr \<lparr>file_type = ''event-1'', pipeline_name = pipeline_name', what = what',
                parent_event_id = parent_event_id', when_utc = now, event_id = uuid,
                snapshot = kw_snapshot kw, exit_code = kw_exit_code kw,
                exception = kw_exception kw\<rparr>)"

text \<open>
  The state: the file system of the context directory; the event files of
  \<open>events/db\<close>, by event id; the value in the file \<open>events/head\<close> (\<open>None\<close> when there
  is no such file, \<open>Some None\<close> when it holds \<open>null\<close>); the attribute \<open>event_data\<close> of
  the \<open>EventLog\<close> object; and what has been printed to stderr.
\<close>

record state =
  fs :: filesystem
  db :: "string \<Rightarrow> Event option"
  head :: "string option option"
  event_data :: "Event list option"
  printed :: "string list"

definition events_path :: string where
  "events_path = join (meta_path context_path) ''events''"
definition db_path :: string where "db_path = join events_path ''db''"
definition new_path :: string where "new_path = join events_path ''new''"
definition head_path :: string where "head_path = join events_path ''head''"

definition lift_fs ::
  "state \<Rightarrow> (error \<times> filesystem) + filesystem \<Rightarrow> (error \<times> state) + state" where
  "lift_fs s r =
     (case r of Inl (e, w) \<Rightarrow> Inl (e, s\<lparr>fs := w\<rparr>) | Inr w \<Rightarrow> Inr (s\<lparr>fs := w\<rparr>))"

definition log_exists :: "state \<Rightarrow> bool" where
  "log_exists s = isdir (fs s) db_path"

definition ensure_log_exists :: "state \<Rightarrow> (error \<times> state) + state" where
  "ensure_log_exists s =
     lift_fs s
       (then_do (ensure_directory_exists (fs s) events_path makedirs) (\<lambda>w.
        then_do (ensure_directory_exists w db_path mkdir) (\<lambda>w.
        ensure_directory_exists w new_path mkdir)))"

text \<open>Python's truth value of an event id and of \<open>event_data\<close>.\<close>

definition truthy :: "string option \<Rightarrow> bool" where
  "truthy x = (case x of None \<Rightarrow> False | Some v \<Rightarrow> v \<noteq> [])"

definition nonempty :: "'a list option \<Rightarrow> bool" where
  "nonempty x = (case x of None \<Rightarrow> False | Some v \<Rightarrow> v \<noteq> [])"

text \<open>
  \<open>read_event\<close> loads the event file and builds the event again with \<open>Event(**event_data)\<close>:
  the constructor asserts that \<open>what\<close> is an event type, and the stored attributes replace
  the ones it has just set.
\<close>

definition read_event :: "(string \<Rightarrow> Event option) \<Rightarrow> string \<Rightarrow> error + Event" where
  "read_event d i =
     (case d i of
        None \<Rightarrow> Inl (IOError ENOENT)
      | Some event \<Rightarrow> if what event \<notin> set EVENT_TYPES then Inl AssertionError else Inr event)"

text \<open>
  The loop of \<open>read_log\<close>. It follows the parent ids for as long as they are true; on a
  cyclic chain it does not return, which is the value \<open>None\<close>.
\<close>

partial_function (option) read_events ::
  "(string \<Rightarrow> Event option) \<Rightarrow> string option \<Rightarrow> Event list \<Rightarrow> (error + Event list) option" where
  "read_events d i data =
     (if truthy i
      then (case read_event d (the i) of
              Inl e \<Rightarrow> Some (Inl e)
            | Inr event \<Rightarrow> read_events d (parent_event_id event) (data @ [event]))
      else Some (Inr data))"

declare read_events.simps [code]

text \<open>
  The list \<open>c\<close> holds the events that the loop reads from the id \<open>i\<close>, newest first.
\<close>

fun is_chain :: "(string \<Rightarrow> Event option) \<Rightarrow> string option \<Rightarrow> Event list \<Rightarrow> bool" where
  "is_chain d i [] = (\<not> truthy i)"
| "is_chain d i (e # c) =
     (truthy i \<and> d (the i) = Some e \<and> what e \<in> set EVENT_TYPES
      \<and> is_chain d (parent_event_id e) c)"

definition read_log :: "state \<Rightarrow> ((error \<times> state) + state) option" where
  "read_log s =
     (let s = s\<lparr>event_data := None\<rparr> in
      if \<not> log_exists s then Some (Inr s)
      else (case head s of
              None \<Rightarrow> Some (Inr s)
            | Some i \<Rightarrow>
                (case read_events (db s) i [] of
                   None \<Rightarrow> None
                 | Some (Inl e) \<Rightarrow> Some (Inl (e, s))
                 | Some (Inr data) \<Rightarrow> Some (Inr (s\<lparr>event_data := Some data\<rparr>)))))"

text \<open>Sequencing steps that may not return.\<close>

definition and_then ::
  "('e + 'a) option \<Rightarrow> ('a \<Rightarrow> ('e + 'b) option) \<Rightarrow> ('e + 'b) option" where
  "and_then m f = (case m of None \<Rightarrow> None | Some (Inl e) \<Rightarrow> Some (Inl e) | Some (Inr x) \<Rightarrow> f x)"

definition get_status :: "state \<Rightarrow> ((error \<times> state) + (string \<times> state)) option" where
  "get_status s =
     (if \<not> log_exists s then Some (Inr (''never_run'', s))
      else and_then (if \<not> nonempty (event_data s) then read_log s else Some (Inr s)) (\<lambda>s.
        (case event_data s of
           Some (e # es) \<Rightarrow> Some (Inr (what e, s))
         | _ \<Rightarrow> Some (Inr (''never_run'', s)))))"

definition get_current_pipeline_name ::
  "state \<Rightarrow> ((error \<times> state) + (string option \<times> state)) option" where
  "get_current_pipeline_name s =
     (if \<not> log_exists s then Some (Inr (None, s))
      else and_then (if \<not> nonempty (event_data s) then read_log s else Some (Inr s)) (\<lambda>s.
        (case event_data s of
           Some (e # es) \<Rightarrow> Some (Inr (Some (pipeline_name e), s))
         | _ \<Rightarrow> Some (Inr (None, s)))))"

text \<open>
  Writing a file into \<open>events/new\<close> and renaming it into place: the first fails when
  \<open>new\<close> is no directory, the second when the directory of the final path is none.
\<close>

definition save_event :: "Event \<Rightarrow> state \<Rightarrow> (error \<times> state) + state" where
  "save_event event s =
     (if \<not> isdir (fs s) new_path then Inl (IOError ENOENT, s)
      else if \<not> isdir (fs s) db_path then Inl (OSError ENOENT, s)
      else Inr (s\<lparr>db := (db s)(event_id event \<mapsto> event)\<rparr>))"

definition save_new_head :: "string option \<Rightarrow> state \<Rightarrow> (error \<times> state) + state" where
  "save_new_head i s =
     (if \<not> isdir (fs s) new_path then Inl (IOError ENOENT, s)
      else Inr (s\<lparr>head := Some i\<rparr>))"

definition post_event ::
  "string \<Rightarrow> nat \<Rightarrow> string \<Rightarrow> string \<Rightarrow> kwds \<Rightarrow> state \<Rightarrow> (error \<times> state) + state" where
  "post_event uuid now pipeline_name' what' kw s =
     (let parent_event_id' =
            (case event_data s of Some (e # es) \<Rightarrow> Some (event_id e) | _ \<Rightarrow> None);
          s = (case event_data s of Some (e # es) \<Rightarrow> s | _ \<Rightarrow> s\<lparr>event_data := Some []\<rparr>)
      in then_do (sys s (new_Event uuid now pipeline_name' what' parent_event_id' kw)) (\<lambda>event.
           then_do (save_event event (s\<lparr>event_data := Some (event # the (event_data s))\<rparr>))
             (\<lambda>s. save_new_head (Some (event_id event)) s)))"

definition lift_snapshot ::
  "state \<Rightarrow> (error \<times> filesystem) + (filesystem \<times> snapshot) \<Rightarrow> (error \<times> state) + (snapshot \<times> state)" where
  "lift_snapshot s r =
     (case r of Inl (e, w) \<Rightarrow> Inl (e, s\<lparr>fs := w\<rparr>) | Inr (w, x) \<Rightarrow> Inr (x, s\<lparr>fs := w\<rparr>))"

definition record_pipeline_started ::
  "string \<Rightarrow> nat \<Rightarrow> string \<Rightarrow> state \<Rightarrow> (error \<times> state) + state" where
  "record_pipeline_started uuid now pipeline_name' s =
     then_do (ensure_log_exists s) (\<lambda>s.
       then_do (lift_snapshot s (create_snapshot (fs s))) (\<lambda>(before_snapshot, s).
         post_event uuid now pipeline_name' ''started''
           (no_kwds\<lparr>kw_snapshot := Some before_snapshot\<rparr>) s))"

definition record_pipeline_finished ::
  "string \<Rightarrow> nat \<Rightarrow> string \<Rightarrow> state \<Rightarrow> (error \<times> state) + state" where
  "record_pipeline_finished uuid now pipeline_name' s =
     then_do (ensure_log_exists s) (\<lambda>s.
       post_event uuid now pipeline_name' ''finished'' no_kwds s)"

definition record_pipeline_failed ::
  "string \<Rightarrow> nat \<Rightarrow> string \<Rightarrow> kwds \<Rightarrow> state \<Rightarrow> (error \<times> state) + state" where
  "record_pipeline_failed uuid now pipeline_name' kw s =
     then_do (ensure_log_exists s) (\<lambda>s.
       post_event uuid now pipeline_name' ''failed'' kw s)"

definition record_pipeline_reverted ::
  "string \<Rightarrow> nat \<Rightarrow> string \<Rightarrow> string option \<Rightarrow> state \<Rightarrow> (error \<times> state) + state" where
  "record_pipeline_reverted uuid now pipeline_name' new_head_id s =
     then_do (ensure_log_exists s) (\<lambda>s.
       then_do (post_event uuid now pipeline_name' ''reverted'' no_kwds s) (\<lambda>s.
         save_new_head new_head_id s))"

text \<open>
  The loop of \<open>revert_one\<close>: the value of the loop variable \<open>event\<close> when the loop ends,
  at the first started event or after the last event.
\<close>

fun find_started :: "Event option \<Rightarrow> Event list \<Rightarrow> Event option" where
  "find_started event [] = event"
| "find_started event (e # es) =
     (if what e = ''started'' then Some e else find_started (Some e) es)"

text \<open>
  \<open>revert_one\<close>; \<open>trash_now\<close> is the ISO time at which the trash can is made, \<open>uuid\<close> and
  \<open>now\<close> are the id and time of the event it posts.
\<close>

definition revert_one ::
  "string \<Rightarrow> nat \<Rightarrow> string \<Rightarrow> state \<Rightarrow> ((error \<times> state) + state) option" where
  "revert_one uuid now trash_now s =
     and_then (read_log s) (\<lambda>s.
     and_then (get_current_pipeline_name s) (\<lambda>(pipeline_name', s).
       if \<not> truthy pipeline_name' then Some (Inl (AssertionError, s))
       else
         (case event_data s of
            None \<Rightarrow> Some (Inl (TypeError, s))
          | Some data \<Rightarrow>
              (case find_started None data of
                 None \<Rightarrow> Some (Inl (AssertionError, s))
               | Some event \<Rightarrow>
                   if what event \<noteq> ''started'' then Some (Inl (AssertionError, s))
                   else if Some (pipeline_name event) \<noteq> pipeline_name'
                   then Some (Inl (AssertionError, s))
                   else
                     (let new_head_id = parent_event_id event in
                      case snapshot event of
                        None \<Rightarrow> Some (Inl (AttributeError, s))
                      | Some snapshot_dict \<Rightarrow>
                          and_then
                            (Some (then_do
                               (lift_fs s (restore_snapshot trash_now snapshot_dict (fs s)))
                               (\<lambda>s. record_pipeline_reverted uuid now (the pipeline_name')
                                       new_head_id s)))
                            (\<lambda>s. read_log s))))))"

text \<open>
  The state in which an operation ends, whether it returns or raises.
\<close>

definition final_state :: "(error \<times> 's) + 's \<Rightarrow> 's" where
  "final_state r = (case r of Inl (e, s) \<Rightarrow> s | Inr s \<Rightarrow> s)"

section \<open>Dependencies\<close>

text \<open>A dependency is the triple \<open>(name, version, dependency_type)\<close>.\<close>

type_synonym dependency = "string \<times> string \<times> string"

record DependencyFinder =
  pmatic_base :: string
  dependency_paths :: "string \<times> string \<Rightarrow> string option"

definition check_listed :: "DependencyFinder \<Rightarrow> dependency \<Rightarrow> bool" where
  "check_listed self dependency =
     (case dependency of (name, version, dependency_type) \<Rightarrow>
        dependency_paths self (name, version) \<noteq> None)"

definition path_and_type :: "DependencyFinder \<Rightarrow> dependency \<Rightarrow> error + (string \<times> string)" where
  "path_and_type self dependency =
     (case dependency of (name, version, dependency_type) \<Rightarrow>
        (case dependency_paths self (name, version) of
           None \<Rightarrow> Inl KeyError
         | Some p \<Rightarrow> Inr (p, dependency_type)))"

definition path :: "DependencyFinder \<Rightarrow> dependency \<Rightarrow> error + string" where
  "path self dependency = map_sum id fst (path_and_type self dependency)"

definition check_exists :: "DependencyFinder \<Rightarrow> filesystem \<Rightarrow> dependency \<Rightarrow> error + bool" where
  "check_exists self w dependency = map_sum id (exists w) (path self dependency)"

text \<open>
  \<open>os.access(path, os.X_OK)\<close> asks for the real user and groups of the process: the execute
  bit of the owner decides when the process owns the file, else that of the group when the
  process is in the file's group, else that of the others; the superuser may execute a
  directory, and a file with any execute bit.
\<close>

definition access_X_OK :: "filesystem \<Rightarrow> string \<Rightarrow> bool" where
  "access_X_OK w p =
     (case os_stat w p of
        Inl e \<Rightarrow> False
      | Inr st \<Rightarrow>
          (if proc_uid w = 0 then S_ISDIR (st_mode st) \<or> st_mode st AND 73 \<noteq> 0
           else if st_uid st = proc_uid w then st_mode st AND 64 \<noteq> 0
           else if st_gid st = proc_gid w \<or> st_gid st \<in> set (proc_groups w)
           then st_mode st AND 8 \<noteq> 0
           else st_mode st AND 1 \<noteq> 0))"

definition is_executable :: "filesystem \<Rightarrow> string \<Rightarrow> bool" where
  "is_executable w p = (isfile w p \<and> access_X_OK w p)"

definition check_type :: "DependencyFinder \<Rightarrow> filesystem \<Rightarrow> dependency \<Rightarrow> error + bool" where
  "check_type self w dependency =
     then_do (path_and_type self dependency) (\<lambda>(p, dependency_type).
       if dependency_type = ''directory'' then Inr (isdir w p)
       else if dependency_type = ''file'' then Inr (isfile w p)
       else if dependency_type = ''executable'' then Inr (is_executable w p)
       else if dependency_type = ''link'' then Inr (islink w p)
       else Inl KeyError)"

text \<open>
  The set of the dependencies in \<open>A\<close> that fail a check. The checks raise nothing but
  \<open>KeyError\<close>, and the comprehension raises it when the check of some member does.
\<close>

definition failing :: "('a \<Rightarrow> error + bool) \<Rightarrow> 'a set \<Rightarrow> error + 'a set" where
  "failing check A =
     (if \<exists>d \<in> A. isl (check d) then Inl KeyError
      else Inr {d \<in> A. check d = Inr False})"

definition unlisted_of :: "DependencyFinder \<Rightarrow> dependency set \<Rightarrow> dependency set" where
  "unlisted_of df dependencies = {d \<in> dependencies. \<not> check_listed df d}"

definition missing_of ::
  "DependencyFinder \<Rightarrow> filesystem \<Rightarrow> dependency set \<Rightarrow> error + dependency set" where
  "missing_of df w dependencies =
     failing (check_exists df w) (dependencies - unlisted_of df dependencies)"

definition bad_type_of ::
  "DependencyFinder \<Rightarrow> filesystem \<Rightarrow> dependency set \<Rightarrow> dependency set \<Rightarrow> error + dependency set" where
  "bad_type_of df w dependencies missing =
     failing (check_type df w) (dependencies - unlisted_of df dependencies - missing)"

subsection \<open>Messages\<close>

text \<open>
  \<open>%r\<close> of a \<open>str\<close>, and of \<open>None\<close>. The string is quoted with single quotes, or with
  double quotes when it holds a single quote and no double quote; the quote character and
  the backslash are escaped with a backslash, tab, newline and carriage return are written
  \<open>\t\<close>, \<open>\n\<close> and \<open>\r\<close>, and every other character below the space or above \<open>~\<close> is written
  \<open>\xhh\<close> with two lower-case hexadecimal digits.
\<close>

definition hex_digit :: "nat \<Rightarrow> char" where
  "hex_digit d = ''0123456789abcdef'' ! d"

definition repr_char :: "char \<Rightarrow> char \<Rightarrow> string" where
  "repr_char q c =
     (if c = q \<or> c = CHR 0x5C then [CHR 0x5C, c]
      else if c = CHR 0x09 then [CHR 0x5C, CHR ''t'']
      else if c = CHR 0x0A then [CHR 0x5C, CHR ''n'']
      else if c = CHR 0x0D then [CHR 0x5C, CHR ''r'']
      else if (of_char c :: nat) < 32 \<or> 127 \<le> (of_char c :: nat)
      then [CHR 0x5C, CHR ''x'', hex_digit (of_char c div 16), hex_digit (of_char c mod 16)]
      else [c])"

definition repr :: "string \<Rightarrow> string" where
  "repr x =
     (let q = (if CHR 0x27 \<in> set x \<and> CHR 0x22 \<notin> set x then CHR 0x22 else CHR 0x27)
      in [q] @ concat (map (repr_char q) x) @ [q])"

definition repr_opt :: "string option \<Rightarrow> string" where
  "repr_opt x = (case x of None \<Rightarrow> ''None'' | Some v \<Rightarrow> repr v)"

definition print_err :: "string \<Rightarrow> state \<Rightarrow> state" where
  "print_err message_str s = s\<lparr>printed := printed s @ [message_str]\<rparr>"

definition fail :: "string \<Rightarrow> state \<Rightarrow> (error \<times> state) + 'a" where
  "fail message_str s = Inl (SystemExit 1, print_err message_str s)"

definition deployment_file_path :: "string \<Rightarrow> string" where
  "deployment_file_path base = join base ''deployments.yaml''"

fun print_missing ::
  "DependencyFinder \<Rightarrow> dependency list \<Rightarrow> state \<Rightarrow> (error \<times> state) + state" where
  "print_missing df [] s = Inr s"
| "print_missing df (dependency # ds) s =
     then_do (sys s (path df dependency)) (\<lambda>p. print_missing df ds (print_err (repr p) s))"

fun print_bad_type ::
  "DependencyFinder \<Rightarrow> dependency list \<Rightarrow> state \<Rightarrow> (error \<times> state) + state" where
  "print_bad_type df [] s = Inr s"
| "print_bad_type df (dependency # ds) s =
     then_do (sys s (path_and_type df dependency)) (\<lambda>(p, dependency_type).
       print_bad_type df ds
         (print_err (''need '' @ repr dependency_type @ '': '' @ repr p) s))"

text \<open>
  \<open>fail_dependencies\<close>. For an unlisted dependency, \<open>print_err('%r', dependency)\<close>
  formats one \<open>%r\<close> with a triple, a \<open>TypeError\<close>, after the heading has been printed.
\<close>

definition fail_dependencies ::
  "DependencyFinder \<Rightarrow> dependency set \<Rightarrow> dependency set \<Rightarrow> dependency set \<Rightarrow> state
     \<Rightarrow> (error \<times> state) + state" where
  "fail_dependencies df unlisted missing bad_type s =
     (if unlisted \<noteq> {}
      then Inl (TypeError,
             print_err (''The following dependencies are not listed in ''
                          @ deployment_file_path (pmatic_base df) @ '':'') s)
      else
        then_do
          (if missing \<noteq> {}
           then print_missing df (sorted_list_of_set missing)
                  (print_err ''The following dependencies are missing:'' s)
           else Inr s)
          (\<lambda>s. then_do
                 (if bad_type \<noteq> {}
                  then print_bad_type df (sorted_list_of_set bad_type)
                         (print_err ''The following dependencies have the wrong type:'' s)
                  else Inr s)
                 (\<lambda>s. Inl (SystemExit 1, s))))"

section \<open>Pipelines\<close>

text \<open>
  A pipeline document, as \<open>load_yaml_file\<close> returns it: a field is \<open>None\<close> when the
  document has no such key.
\<close>

record pipeline_doc =
  doc_file_type :: "string option"
  doc_executable :: "string option"
  doc_arguments :: "string list option"
  doc_stdin :: "string option"
  doc_stdout :: "string option"
  doc_stderr :: "string option"

record SingleTaskPipeline =
  pl_pipeline_name :: string
  version :: string
  executable :: string
  arguments :: "string list"
  stdin :: string
  stdout :: "string option"
  stderr :: "string option"

text \<open>\<open>s.rsplit(c, 1)\<close>, when it has two parts.\<close>

definition rsplit1 :: "char \<Rightarrow> string \<Rightarrow> (string \<times> string) option" where
  "rsplit1 c x =
     (if c \<in> set x
      then Some (rev (tl (dropWhile (\<lambda>y. y \<noteq> c) (rev x))), rev (takeWhile (\<lambda>y. y \<noteq> c) (rev x)))
      else None)"

text \<open>\<open>SingleTaskPipeline.__init__\<close> with \<open>load\<close>.\<close>

definition load :: "string \<Rightarrow> string \<Rightarrow> pipeline_doc \<Rightarrow> error + SingleTaskPipeline" where
  "load pipeline_name' version' data =
     (if version' \<noteq> ''1'' then Inl AssertionError
      else if \<not> truthy (doc_executable data) then Inl AssertionError
      else Inr \<lparr>pl_pipeline_name = pipeline_name', version = version',
                executable = the (doc_executable data),
                arguments = (case doc_arguments data of None \<Rightarrow> [] | Some a \<Rightarrow> a),
                stdin = (if truthy (doc_stdin data) then the (doc_stdin data) else ''/dev/null''),
                stdout = doc_stdout data, stderr = doc_stderr data\<rparr>)"

text \<open>
  \<open>load_pipeline\<close>; \<open>pipelines\<close> are the documents under \<open>pmatic_base/pipelines\<close>, by
  pipeline name.
\<close>

definition load_pipeline ::
  "(string \<Rightarrow> pipeline_doc option) \<Rightarrow> string \<Rightarrow> error + SingleTaskPipeline" where
  "load_pipeline pipelines pipeline_name' =
     (case pipelines pipeline_name' of
        None \<Rightarrow> Inl (IOError ENOENT)
      | Some data \<Rightarrow>
          (case doc_file_type data of
             None \<Rightarrow> Inl KeyError
           | Some file_type' \<Rightarrow>
               (case rsplit1 (CHR ''-'') file_type' of
                  None \<Rightarrow> Inl ValueError
                | Some (pipeline_class_name, version') \<Rightarrow> load pipeline_name' version' data)))"

definition get_dependencies :: "SingleTaskPipeline \<Rightarrow> dependency set" where
  "get_dependencies self = {(executable self, version self, ''executable'')}"

text \<open>
  What opening the standard streams, launching the child with \<open>args\<close> and waiting for it
  does: the file system afterwards, and either the exception raised (with its \<open>str\<close>) or
  the exit code. \<open>except Exception\<close> catches the exception, records the failure and raises
  it again; a \<open>SystemExit\<close> or \<open>KeyboardInterrupt\<close> passes through with no event.
\<close>

datatype child_outcome = Raised error string | Exited int

type_synonym launcher =
  "string list \<Rightarrow> string \<times> string option \<times> string option \<Rightarrow> filesystem \<Rightarrow> filesystem \<times> child_outcome"

text \<open>
  \<open>implement_run\<close>; \<open>uuid1\<close>, \<open>now1\<close> are the id and time of the first event it posts,
  \<open>uuid2\<close>, \<open>now2\<close> those of the second.
\<close>

definition implement_run ::
  "DependencyFinder \<Rightarrow> launcher \<Rightarrow> string \<Rightarrow> nat \<Rightarrow> string \<Rightarrow> nat \<Rightarrow> SingleTaskPipeline \<Rightarrow> state
     \<Rightarrow> (error \<times> state) + state" where
  "implement_run df launch uuid1 now1 uuid2 now2 self s =
     then_do (sys s (path df (executable self, version self, ''executable''))) (\<lambda>executable_path.
       let args = executable_path # arguments self in
       then_do (record_pipeline_started uuid1 now1 (pl_pipeline_name self) s) (\<lambda>s.
         (case launch args (stdin self, stdout self, stderr self) (fs s) of
            (w, Raised e msg) \<Rightarrow>
              if is_Exception e
              then then_do (record_pipeline_failed uuid2 now2 (pl_pipeline_name self)
                              (no_kwds\<lparr>kw_exception := Some msg\<rparr>) (s\<lparr>fs := w\<rparr>))
                     (\<lambda>s. Inl (e, s))
              else Inl (e, s\<lparr>fs := w\<rparr>)
          | (w, Exited exit_code') \<Rightarrow>
              if exit_code' = 0
              then record_pipeline_finished uuid2 now2 (pl_pipeline_name self) (s\<lparr>fs := w\<rparr>)
              else
                then_do (record_pipeline_failed uuid2 now2 (pl_pipeline_name self)
                           (no_kwds\<lparr>kw_exit_code := Some exit_code'\<rparr>) (s\<lparr>fs := w\<rparr>))
                  (\<lambda>s. Inl (ExitCodeError exit_code' (''exit code from '' @ repr executable_path),
                            s)))))"

section \<open>The engine\<close>

record PipelineEngine =
  verbose :: bool
  engine_context_path :: string
  dependency_finder :: DependencyFinder
  pipelines :: "string \<Rightarrow> pipeline_doc option"

definition debug :: "PipelineEngine \<Rightarrow> string \<Rightarrow> state \<Rightarrow> state" where
  "debug self message_str s = (if verbose self then print_err message_str s else s)"

definition cannot_run_message :: "string option \<Rightarrow> string \<Rightarrow> string" where
  "cannot_run_message current_pipeline current_status =
     ''Cannot run, because pipeline '' @ repr_opt current_pipeline
       @ '' has a status of '' @ repr current_status"

definition run ::
  "PipelineEngine \<Rightarrow> launcher \<Rightarrow> string \<Rightarrow> nat \<Rightarrow> string \<Rightarrow> nat \<Rightarrow> string \<Rightarrow> state
     \<Rightarrow> ((error \<times> state) + state) option" where
  "run self launch uuid1 now1 uuid2 now2 pipeline_name' s =
     (let s = debug self (''running '' @ pipeline_name' @ '' in '' @ engine_context_path self) s in
      and_then (Some (sys s (load_pipeline (pipelines self) pipeline_name'))) (\<lambda>pipeline.
      and_then (Some (ensure_log_exists s)) (\<lambda>s.
      and_then (read_log s) (\<lambda>s.
      and_then (get_current_pipeline_name s) (\<lambda>(current_pipeline, s).
      and_then (get_status s) (\<lambda>(current_status, s).
      and_then
        (if current_status \<notin> set [''never_run'', ''finished'']
         then Some (fail (cannot_run_message current_pipeline current_status) s)
         else Some (Inr s))
        (\<lambda>s.
           let dependencies = get_dependencies pipeline;
               unlisted = unlisted_of (dependency_finder self) dependencies
           in
           and_then (Some (sys s (missing_of (dependency_finder self) (fs s) dependencies)))
             (\<lambda>missing.
           and_then (Some (sys s (bad_type_of (dependency_finder self) (fs s) dependencies
                                    missing)))
             (\<lambda>bad_type.
           and_then
             (if unlisted \<noteq> {} \<or> missing \<noteq> {} \<or> bad_type \<noteq> {}
              then Some (fail_dependencies (dependency_finder self) unlisted missing bad_type s)
              else Some (Inr s))
             (\<lambda>s. Some (implement_run (dependency_finder self) launch uuid1 now1 uuid2 now2
                          pipeline s)))))))))))"

section \<open>Example inputs\<close>

text \<open>A registry, a world outside the context directory and a dependency set.\<close>

definition deps_df :: DependencyFinder where
  "deps_df = \<lparr>pmatic_base = ''/base'',
      dependency_paths = (\<lambda>k. if k = (''a'', ''1'') then Some ''/a''
                               else if k = (''b'', ''1'') then Some ''/b'' else None)\<rparr>"

definition deps_fs :: filesystem where
  "deps_fs = \<lparr>root = [], inodes = (\<lambda>i. \<lparr>ikind = KReg, iperm = 420, isize = 0, iuid = 1000, igid = 1000\<rparr>),
      outside = (\<lambda>q. if q = [''b''] then Some \<lparr>st_mode = 16877, st_ino = 2, st_size = 0, st_uid = 0, st_gid = 0\<rparr>
                      else None),
      has_lchmod = False, next_inode = 200, proc_uid = 1000, proc_gid = 1000,
      proc_groups = []\<rparr>"

definition deps_set :: "dependency set" where
  "deps_set = {(''a'', ''1'', ''file''), (''b'', ''1'', ''file''), (''c'', ''1'', ''file'')}"

text \<open>A context directory with a directory and a symbolic link to it.\<close>

definition link_to_dir_fs :: filesystem where
  "link_to_dir_fs =
     \<lparr>root = [(''d'', Dir 101 []), (''l'', Lnk 102 ''d'')],
      inodes = (\<lambda>i. \<lparr>ikind = KReg, iperm = (if i = 102 then 511 else 493), isize = 0, iuid = 1000, igid = 1000\<rparr>),
      outside = (\<lambda>q. None), has_lchmod = False, next_inode = 200, proc_uid = 1000, proc_gid = 1000,
      proc_groups = []\<rparr>"

text \<open>
  States of a context directory that holds the file \<open>data.txt\<close>: before the first run
  of the pipeline \<open>hello\<close>, after its \<open>started\<close> event, after a failed run, after
  a finished run that replaced \<open>data.txt\<close>, and after the revert of that run; and a
  state after two finished runs, with the state after the revert of the second.
\<close>

definition default_inodes :: "nat \<Rightarrow> inode" where
  "default_inodes = (\<lambda>i. \<lparr>ikind = KReg, iperm = (if i < 100 then 420 else 493), isize = 3, iuid = 1000, igid = 1000\<rparr>)"

definition host_outside :: "string list \<Rightarrow> stat_result option" where
  "host_outside =
     (\<lambda>q. if q = [''bin'', ''false'']
           then Some \<lparr>st_mode = 33261, st_ino = 9, st_size = 100, st_uid = 0, st_gid = 0\<rparr> else None)"

definition meta_dirs :: "(string \<times> node) list \<Rightarrow> string \<times> node" where
  "meta_dirs backups =
     (''.pmatic'', Dir 200 [(''events'', Dir 201 [(''db'', Dir 202 []), (''new'', Dir 203 [])]),
                            (''inode_snapshots'', Dir 204 backups)])"

definition mk_event ::
  "string \<Rightarrow> string \<Rightarrow> string option \<Rightarrow> nat \<Rightarrow> snapshot option \<Rightarrow> int option \<Rightarrow> Event" where
  "mk_event what' uuid parent now snap code =
     \<lparr>file_type = ''event-1'', pipeline_name = ''hello'', what = what',
      parent_event_id = parent, when_utc = now, event_id = uuid, snapshot = snap,
      exit_code = code, exception = None\<rparr>"

definition data_snapshot :: snapshot where
  "data_snapshot = [(''data.txt'', ''REG'', 420, 3, 5, None)]"

definition fresh_state :: state where
  "fresh_state =
     \<lparr>fs = \<lparr>root = [(''data.txt'', Hard 5)], inodes = default_inodes,
             outside = host_outside, has_lchmod = False, next_inode = 200, proc_uid = 1000, proc_gid = 1000,
      proc_groups = []\<rparr>,
      db = Map.empty, head = None, event_data = None, printed = []\<rparr>"

definition started_fs :: filesystem where
  "started_fs =
     \<lparr>root = [(''data.txt'', Hard 5), meta_dirs [(''5'', Hard 5)]],
      inodes = default_inodes(5 := \<lparr>ikind = KReg, iperm = 292, isize = 3, iuid = 1000, igid = 1000\<rparr>),
      outside = host_outside, has_lchmod = False, next_inode = 205, proc_uid = 1000, proc_gid = 1000,
      proc_groups = []\<rparr>"

definition started_state :: state where
  "started_state =
     \<lparr>fs = started_fs,
      db = [''u1'' \<mapsto> mk_event ''started'' ''u1'' None 10 (Some data_snapshot) None],
      head = Some (Some ''u1''),
      event_data = Some [mk_event ''started'' ''u1'' None 10 (Some data_snapshot) None],
      printed = []\<rparr>"

definition failed_state :: state where
  "failed_state =
     \<lparr>fs = started_fs,
      db = [''u1'' \<mapsto> mk_event ''started'' ''u1'' None 10 (Some data_snapshot) None,
            ''u2'' \<mapsto> mk_event ''failed'' ''u2'' (Some ''u1'') 20 None (Some 1)],
      head = Some (Some ''u2''), event_data = None, printed = []\<rparr>"

definition finished_state :: state where
  "finished_state =
     \<lparr>fs = started_fs\<lparr>root := [(''data.txt'', Hard 7), meta_dirs [(''5'', Hard 5)]]\<rparr>,
      db = [''u1'' \<mapsto> mk_event ''started'' ''u1'' None 10 (Some data_snapshot) None,
            ''u2'' \<mapsto> mk_event ''finished'' ''u2'' (Some ''u1'') 20 None None],
      head = Some (Some ''u2''), event_data = None, printed = []\<rparr>"

definition reverted_state :: state where
  "reverted_state =
     \<lparr>fs = \<lparr>root = [meta_dirs [(''5'', Hard 5)],
                     (''.trash_cans'', Dir 205 [(''T'', Dir 206 [(''data.txt'', Hard 7)])]),
                     (''data.txt'', Hard 5)],
             inodes = default_inodes(5 := \<lparr>ikind = KReg, iperm = 420, isize = 3, iuid = 1000, igid = 1000\<rparr>),
             outside = host_outside, has_lchmod = False, next_inode = 207, proc_uid = 1000, proc_gid = 1000,
      proc_groups = []\<rparr>,
      db = [''u1'' \<mapsto> mk_event ''started'' ''u1'' None 10 (Some data_snapshot) None,
            ''u2'' \<mapsto> mk_event ''finished'' ''u2'' (Some ''u1'') 20 None None,
            ''u3'' \<mapsto> mk_event ''reverted'' ''u3'' (Some ''u2'') 30 None None],
      head = Some None, event_data = Some [], printed = []\<rparr>"

definition two_runs_state :: state where
  "two_runs_state =
     \<lparr>fs = \<lparr>root = [meta_dirs []], inodes = default_inodes, outside = host_outside,
             has_lchmod = False, next_inode = 205, proc_uid = 1000, proc_gid = 1000,
      proc_groups = []\<rparr>,
      db = [''u1'' \<mapsto> mk_event ''started'' ''u1'' None 10 (Some []) None,
            ''u2'' \<mapsto> mk_event ''finished'' ''u2'' (Some ''u1'') 20 None None,
            ''u3'' \<mapsto> mk_event ''started'' ''u3'' (Some ''u2'') 30 (Some []) None,
            ''u4'' \<mapsto> mk_event ''finished'' ''u4'' (Some ''u3'') 40 None None],
      head = Some (Some ''u4''), event_data = None, printed = []\<rparr>"

definition two_runs_reverted :: state where
  "two_runs_reverted =
     two_runs_state
       \<lparr>db := (db two_runs_state)(''u5'' \<mapsto> mk_event ''reverted'' ''u5'' (Some ''u4'') 50 None None),
        head := Some (Some ''u2''),
        event_data := Some [mk_event ''finished'' ''u2'' (Some ''u1'') 20 None None,
                            mk_event ''started'' ''u1'' None 10 (Some []) None]\<rparr>"

definition launch_false :: launcher where
  "launch_false args io w = (w, Exited 1)"






definition hello_engine :: PipelineEngine where
  "hello_engine =
     \<lparr>verbose = False, engine_context_path = ''/ctx'',
      dependency_finder =
        \<lparr>pmatic_base = ''/base'',
         dependency_paths = (\<lambda>k. if k = (''false'', ''1'') then Some ''/bin/false'' else None)\<rparr>,
      pipelines =
        (\<lambda>n. if n = ''hello''
              then Some \<lparr>doc_file_type = Some ''single-task-1'', doc_executable = Some ''false'',
                         doc_arguments = None, doc_stdin = None, doc_stdout = None,
                         doc_stderr = None\<rparr>
              else None)\<rparr>"

definition hello_pipeline :: SingleTaskPipeline where
  "hello_pipeline =
     \<lparr>pl_pipeline_name = ''hello'', version = ''1'', executable = ''false'', arguments = [],
      stdin = ''/dev/null'', stdout = None, stderr = None\<rparr>"

section \<open>Evaluating the model\<close>

lemmas path_defs = components_def isabs_def join_def dirname_def basename_def
  makedirs_head_def makedirs_tail_def

lemmas stat_defs = S_IFMT_def S_IMODE_def S_IFIFO_def S_IFCHR_def S_IFDIR_def S_IFBLK_def
  S_IFREG_def S_IFLNK_def S_IFSOCK_def S_ISBLK_def S_ISCHR_def S_ISDIR_def S_ISFIFO_def
  S_ISLNK_def S_ISREG_def S_ISSOCK_def

lemmas os_defs = node_at_def is_dir_node_def new_inode_def resolve_def resolve_parent_def stat_with_def
  os_stat_def os_lstat_def exists_def lexists_def isdir_def isfile_def islink_def
  os_listdir_def os_readlink_def create_at_def os_mkdir_def os_symlink_def os_link_def
  os_remove_def os_rmdir_def move_node_def os_rename_def set_perm_def chmod_with_def
  os_chmod_def os_lchmod_def samefile_def sys_def mkdir_def default_dir_mode_def
  ensure_directory_exists_def digit_char_def lchmod_def

lemmas scan_defs = META_DIR_NAME_def TRASH_DIR_NAME_def STAT_TESTS_def context_path_def
  meta_path_def decode_format_def stat_item_def scan_body_def scan_directory_def

lemmas snapshot_defs = new_TrashCan_def trash_def restore_snapshot_def create_snapshot_def

lemmas eval_defs = Let_def path_defs stat_defs os_defs scan_defs snapshot_defs

lemmas log_defs = events_path_def db_path_def new_path_def head_path_def lift_fs_def
  log_exists_def ensure_log_exists_def truthy_def nonempty_def read_event_def read_log_def
  get_status_def get_current_pipeline_name_def save_event_def save_new_head_def
  EVENT_TYPES_def new_Event_def no_kwds_def post_event_def lift_snapshot_def
  record_pipeline_started_def record_pipeline_finished_def record_pipeline_failed_def
  record_pipeline_reverted_def revert_one_def

lemmas engine_defs = check_listed_def path_and_type_def path_def check_exists_def
  access_X_OK_def is_executable_def check_type_def failing_def unlisted_of_def missing_of_def
  bad_type_of_def repr_def repr_char_def hex_digit_def repr_opt_def is_Exception_def print_err_def fail_def deployment_file_path_def
  fail_dependencies_def rsplit1_def load_def load_pipeline_def get_dependencies_def
  implement_run_def debug_def cannot_run_message_def run_def

lemmas example_defs = default_inodes_def host_outside_def meta_dirs_def mk_event_def
  data_snapshot_def fresh_state_def started_fs_def started_state_def failed_state_def
  finished_state_def reverted_state_def two_runs_state_def two_runs_reverted_def
  launch_false_def

lemmas run_defs = log_defs eval_defs str_nat.simps makedirs.simps read_events.simps

section \<open>Dependency categories\<close>

lemma failing_subset:
  "failing check A = Inr F \<Longrightarrow> F \<subseteq> A \<and> (\<forall>d \<in> F. check d = Inr False)"
  by (auto simp: failing_def split: if_splits)

lemma deps_missing: "missing_of deps_df deps_fs deps_set = Inr {(''a'', ''1'', ''file'')}"
  by (auto simp: missing_of_def failing_def deps_set_def unlisted_of_def check_listed_def
      deps_df_def check_exists_def path_def path_and_type_def exists_def os_stat_def
      stat_with_def resolve_def isabs_def components_def deps_fs_def)

lemma deps_bad:
  "bad_type_of deps_df deps_fs deps_set {(''a'', ''1'', ''file'')} = Inr {(''b'', ''1'', ''file'')}"
  by (auto simp: bad_type_of_def failing_def deps_set_def unlisted_of_def check_listed_def
      deps_df_def check_type_def path_def path_and_type_def isfile_def os_stat_def
      stat_with_def resolve_def isabs_def components_def deps_fs_def S_ISREG_def S_IFMT_def
      S_IFREG_def)

lemma deps_unlisted: "unlisted_of deps_df deps_set = {(''c'', ''1'', ''file'')}"
  by (auto simp: unlisted_of_def deps_set_def check_listed_def deps_df_def)

text \<open>
  Claim C9. For the dependency set checked before a run, the sets \<open>unlisted\<close>,
  \<open>missing\<close> and \<open>bad_type\<close> that \<open>run\<close> computes are pairwise disjoint: a dependency
  is tested for existence only if it is listed, and for its type only if it is listed and
  exists, so every missing dependency is listed, and every dependency of bad type is listed
  and exists.
\<close>

theorem dependency_categories_disjoint:
  assumes "missing_of df w dependencies = Inr missing"
    and "bad_type_of df w dependencies missing = Inr bad_type"
  shows "unlisted_of df dependencies \<inter> missing = {}
       \<and> unlisted_of df dependencies \<inter> bad_type = {}
       \<and> missing \<inter> bad_type = {}
       \<and> (\<forall>d \<in> missing. check_listed df d \<and> check_exists df w d = Inr False)
       \<and> (\<forall>d \<in> bad_type. check_listed df d \<and> check_exists df w d = Inr True
                          \<and> check_type df w d = Inr False)"
proof -
  let ?U = "unlisted_of df dependencies"
  from assms(1) have m: "missing \<subseteq> dependencies - ?U"
      "\<forall>d \<in> missing. check_exists df w d = Inr False"
    using failing_subset unfolding missing_of_def by blast+
  from assms(2) have b: "bad_type \<subseteq> dependencies - ?U - missing"
      "\<forall>d \<in> bad_type. check_type df w d = Inr False"
    using failing_subset unfolding bad_type_of_def by blast+
  have listed: "\<And>d. d \<in> dependencies - ?U \<Longrightarrow> check_listed df d"
    by (auto simp: unlisted_of_def)
  have ex: "\<And>d. d \<in> dependencies - ?U - missing \<Longrightarrow> check_exists df w d = Inr True"
  proof -
    fix d assume d: "d \<in> dependencies - ?U - missing"
    from assms(1) have "\<not> isl (check_exists df w d)" "check_exists df w d \<noteq> Inr False"
      using d by (auto simp: missing_of_def failing_def split: if_splits)
    then show "check_exists df w d = Inr True"
      by (cases "check_exists df w d") auto
  qed
  show ?thesis using m b listed ex by blast
qed

theorem dependency_categories_disjoint_witness:
  "missing_of deps_df deps_fs deps_set = Inr {(''a'', ''1'', ''file'')}
   \<and> bad_type_of deps_df deps_fs deps_set {(''a'', ''1'', ''file'')} = Inr {(''b'', ''1'', ''file'')}
   \<and> unlisted_of deps_df deps_set = {(''c'', ''1'', ''file'')}
   \<and> unlisted_of deps_df deps_set \<inter> {(''a'', ''1'', ''file'')} = {}
   \<and> unlisted_of deps_df deps_set \<inter> {(''b'', ''1'', ''file'')} = {}
   \<and> {(''a'', ''1'', ''file'')} \<inter> {(''b'', ''1'', ''file'')} = ({} :: dependency set)
   \<and> check_listed deps_df (''a'', ''1'', ''file'')
   \<and> check_exists deps_df deps_fs (''a'', ''1'', ''file'') = Inr False
   \<and> check_listed deps_df (''b'', ''1'', ''file'')
   \<and> check_exists deps_df deps_fs (''b'', ''1'', ''file'') = Inr True
   \<and> check_type deps_df deps_fs (''b'', ''1'', ''file'') = Inr False"
  using dependency_categories_disjoint [OF deps_missing deps_bad] deps_missing deps_bad
    deps_unlisted
  by simp

section \<open>Symbolic links in a scan\<close>

text \<open>
  Claim C5, at a symbolic link whose target is a directory. \<open>os.walk\<close> lists the link
  \<open>l\<close> among the directory names, and the loop over them stores \<open>None\<close> as its
  \<open>symlink\<close> field: the record of \<open>l\<close> has format \<open>LNK\<close> and no target, although the
  link reads as \<open>d\<close>.
\<close>

theorem scan_directory_link_to_directory:
  "scan_directory link_to_dir_fs [] =
     Inr [(''d'', ''DIR'', 493, 0, 0, None), (''l'', ''LNK'', 511, 1, 0, None)]
   \<and> os_readlink link_to_dir_fs ''l'' = Inr ''d''"
  by (simp add: eval_defs link_to_dir_fs_def)

section \<open>The event log\<close>

lemma and_then_simps [simp]:
  "and_then None f = None"
  "and_then (Some (Inl e)) f = Some (Inl e)"
  "and_then (Some (Inr x)) f = f x"
  by (simp_all add: and_then_def)

lemma and_then_eq_Some_Inr:
  "and_then m f = Some (Inr y) \<longleftrightarrow> (\<exists>x. m = Some (Inr x) \<and> f x = Some (Inr y))"
  by (auto simp: and_then_def split: option.splits sum.splits)

lemma then_do_eq_Inr:
  "then_do m f = Inr y \<longleftrightarrow> (\<exists>x. m = Inr x \<and> f x = Inr y)"
  by (cases m) auto

lemma read_log_event_data_irrelevant: "read_log (s\<lparr>event_data := x\<rparr>) = read_log s"
  by (simp add: read_log_def log_exists_def)

lemma read_log_Inr:
  assumes "read_log s = Some (Inr s')"
  shows "\<exists>x. s' = s\<lparr>event_data := x\<rparr>"
  using assms
  by (auto simp: read_log_def Let_def split: if_splits option.splits sum.splits)

lemma read_log_idem:
  assumes "read_log s = Some (Inr s')"
  shows "read_log s' = Some (Inr s')"
proof -
  from read_log_Inr [OF assms] obtain x where "s' = s\<lparr>event_data := x\<rparr>" ..
  then show ?thesis using assms by (simp add: read_log_event_data_irrelevant)
qed

lemma read_log_not_log_exists:
  "read_log s = Some (Inr s') \<Longrightarrow> \<not> log_exists s' \<Longrightarrow> event_data s' = None"
  by (auto simp: read_log_def Let_def log_exists_def split: if_splits option.splits sum.splits)

lemma get_status_after_read_log:
  assumes "read_log s = Some (Inr s')"
  shows "get_status s' =
           Some (Inr (case event_data s' of Some (e # es) \<Rightarrow> what e | _ \<Rightarrow> ''never_run'', s'))"
proof (cases "log_exists s'")
  case False
  with read_log_not_log_exists [OF assms] show ?thesis
    by (simp add: get_status_def)
next
  case True
  show ?thesis
  proof (cases "nonempty (event_data s')")
    case ne: True
    then show ?thesis using True
      by (auto simp: get_status_def nonempty_def split: option.splits list.splits)
  next
    case e: False
    then show ?thesis using True read_log_idem [OF assms]
      by (auto simp: get_status_def nonempty_def split: option.splits list.splits)
  qed
qed

lemma get_current_pipeline_name_after_read_log:
  assumes "read_log s = Some (Inr s')"
  shows "get_current_pipeline_name s' =
           Some (Inr (case event_data s' of Some (e # es) \<Rightarrow> Some (pipeline_name e) | _ \<Rightarrow> None, s'))"
proof (cases "log_exists s'")
  case False
  with read_log_not_log_exists [OF assms] show ?thesis
    by (simp add: get_current_pipeline_name_def)
next
  case True
  show ?thesis
  proof (cases "nonempty (event_data s')")
    case ne: True
    then show ?thesis using True
      by (auto simp: get_current_pipeline_name_def nonempty_def split: option.splits list.splits)
  next
    case e: False
    then show ?thesis using True read_log_idem [OF assms]
      by (auto simp: get_current_pipeline_name_def nonempty_def split: option.splits list.splits)
  qed
qed

lemma lift_fs_Inr: "lift_fs s r = Inr s' \<longleftrightarrow> (\<exists>w. r = Inr w \<and> s' = s\<lparr>fs := w\<rparr>)"
  by (auto simp: lift_fs_def split: sum.splits)

lemma ensure_log_exists_Inr:
  "ensure_log_exists s = Inr s' \<Longrightarrow> \<exists>w. s' = s\<lparr>fs := w\<rparr>"
  by (auto simp: ensure_log_exists_def lift_fs_Inr)

lemma ensure_directory_exists_isdir [simp]:
  "isdir w p \<Longrightarrow> ensure_directory_exists w p f = Inr w"
  by (simp add: ensure_directory_exists_def)

lemma ensure_log_exists_intact:
  "isdir (fs s) events_path \<Longrightarrow> isdir (fs s) db_path \<Longrightarrow> isdir (fs s) new_path
   \<Longrightarrow> ensure_log_exists s = Inr s"
  by (simp add: ensure_log_exists_def lift_fs_def)

lemma post_event_Inr:
  assumes "post_event uuid now pn wh kw s = Inr s'"
  shows "\<exists>ev data. new_Event uuid now pn wh
             (case event_data s of Some (e # es) \<Rightarrow> Some (event_id e) | _ \<Rightarrow> None) kw = Inr ev
         \<and> data = (case event_data s of Some (e # es) \<Rightarrow> e # es | _ \<Rightarrow> [])
         \<and> s' = s\<lparr>event_data := Some (ev # data), db := (db s)(uuid \<mapsto> ev),
                   head := Some (Some uuid)\<rparr>
         \<and> isdir (fs s) db_path \<and> isdir (fs s) new_path"
  using assms
  by (auto simp: post_event_def Let_def then_do_eq_Inr sys_def save_event_def save_new_head_def
        new_Event_def split: if_splits option.splits list.splits sum.splits)


lemma record_pipeline_started_Inr:
  assumes "record_pipeline_started uuid now pn s = Inr s1"
  shows "\<exists>ev data. event_data s1 = Some (ev # data) \<and> what ev = ''started''
           \<and> event_id ev = uuid \<and> pipeline_name ev = pn
           \<and> db s1 = (db s)(uuid \<mapsto> ev) \<and> head s1 = Some (Some uuid)"
proof -
  from assms obtain sa sb snap where
    a: "ensure_log_exists s = Inr sa"
    and b: "lift_snapshot sa (create_snapshot (fs sa)) = Inr (snap, sb)"
    and c: "post_event uuid now pn ''started'' (no_kwds\<lparr>kw_snapshot := Some snap\<rparr>) sb = Inr s1"
    by (auto simp: record_pipeline_started_def then_do_eq_Inr)
  from ensure_log_exists_Inr [OF a] have sa: "db sa = db s" by auto
  from b have sb: "db sb = db sa"
    by (auto simp: lift_snapshot_def split: sum.splits)
  from post_event_Inr [OF c] sa sb show ?thesis
    by (auto simp: new_Event_def split: if_splits)
qed


lemma is_chain_read_events:
  "is_chain d i c \<Longrightarrow> read_events d i acc = Some (Inr (acc @ c))"
proof (induction c arbitrary: i acc)
  case Nil
  then show ?case by (subst read_events.simps) simp
next
  case (Cons e c)
  then have "read_events d (parent_event_id e) (acc @ [e]) = Some (Inr ((acc @ [e]) @ c))"
    by simp
  with Cons.prems show ?case
    by (subst read_events.simps) (simp add: read_event_def)
qed

lemma read_events_is_chain_aux:
  assumes "read_events d i acc = Some y"
  shows "case y of Inr r \<Rightarrow> \<exists>c. r = acc @ c \<and> is_chain d i c | Inl e \<Rightarrow> True"
proof (rule read_events.raw_induct
    [where P = "\<lambda>d i acc y. case y of Inr r \<Rightarrow> \<exists>c. r = acc @ c \<and> is_chain d i c | Inl e \<Rightarrow> True",
      OF _ assms])
  fix f :: "(string \<Rightarrow> Event option) \<Rightarrow> string option \<Rightarrow> Event list \<Rightarrow> (error + Event list) option"
  fix d i acc y
  assume IH: "\<And>d i acc y. f d i acc = Some y \<Longrightarrow>
      (case y of Inr r \<Rightarrow> \<exists>c. r = acc @ c \<and> is_chain d i c | Inl e \<Rightarrow> True)"
  assume eq: "(if truthy i
      then case read_event d (the i) of Inl e \<Rightarrow> Some (Inl e)
           | Inr event \<Rightarrow> f d (parent_event_id event) (acc @ [event])
      else Some (Inr acc)) = Some y"
  show "case y of Inr r \<Rightarrow> \<exists>c. r = acc @ c \<and> is_chain d i c | Inl e \<Rightarrow> True"
  proof (cases "truthy i")
    case False
    with eq show ?thesis by auto
  next
    case True
    show ?thesis
    proof (cases "d (the i)")
      case None
      with True eq show ?thesis by (auto simp: read_event_def)
    next
      case (Some e)
      show ?thesis
      proof (cases y)
        case (Inl err)
        then show ?thesis by simp
      next
        case (Inr r)
        with True eq Some have ty: "what e \<in> set EVENT_TYPES"
          by (auto simp: read_event_def split: if_splits)
        with True eq Some have rec: "f d (parent_event_id e) (acc @ [e]) = Some y"
          by (simp add: read_event_def)
        with IH [OF rec] Inr obtain c where "r = (acc @ [e]) @ c" "is_chain d (parent_event_id e) c"
          by auto
        with True Some ty have "r = acc @ (e # c) \<and> is_chain d i (e # c)" by simp
        with Inr show ?thesis by (simp del: is_chain.simps)
      qed
    qed
  qed
qed

lemma read_events_is_chain:
  assumes "read_events d i acc = Some (Inr r)"
  shows "\<exists>c. r = acc @ c \<and> is_chain d i c"
  using read_events_is_chain_aux [OF assms] by simp

lemma is_chain_fresh:
  "is_chain d i c \<Longrightarrow> d u = None \<Longrightarrow> is_chain (d(u \<mapsto> x)) i c"
  by (induction c arbitrary: i) auto

lemma is_chain_suffix:
  "is_chain d i (pre @ ev # rest) \<Longrightarrow> is_chain d (parent_event_id ev) rest"
  by (induction pre arbitrary: i) auto

lemma is_chain_unique: "is_chain d i c \<Longrightarrow> is_chain d i c' \<Longrightarrow> c = c'"
proof (induction c arbitrary: i c')
  case Nil
  then show ?case by (cases c') auto
next
  case (Cons e c)
  then show ?case by (cases c') auto
qed

lemma find_started_split:
  assumes "find_started x data = Some ev" and "what ev = ''started''"
    and "\<forall>e. x = Some e \<longrightarrow> what e \<noteq> ''started''"
  shows "\<exists>pre rest. data = pre @ ev # rest \<and> (\<forall>e \<in> set pre. what e \<noteq> ''started'')"
  using assms
proof (induction data arbitrary: x)
  case Nil
  then show ?case by auto
next
  case (Cons e es)
  show ?case
  proof (cases "what e = ''started''")
    case True
    with Cons.prems have "ev = e" by simp
    then show ?thesis by (intro exI [of _ "[]"] exI [of _ es]) simp
  next
    case False
    with Cons.prems have "find_started (Some e) es = Some ev" by simp
    from Cons.IH [OF this Cons.prems(2)] False
    obtain pre rest where "es = pre @ ev # rest" "\<forall>e \<in> set pre. what e \<noteq> ''started''"
      by auto
    with False show ?thesis
      by (intro exI [of _ "e # pre"] exI [of _ rest]) simp
  qed
qed

lemma revert_one_Inr:
  assumes "revert_one uuid now trash_now s = Some (Inr s')"
  shows "\<exists>sa e es ev snap w sc.
      read_log s = Some (Inr sa) \<and> event_data sa = Some (e # es)
      \<and> find_started None (e # es) = Some ev \<and> what ev = ''started''
      \<and> pipeline_name ev = pipeline_name e \<and> snapshot ev = Some snap
      \<and> restore_snapshot trash_now snap (fs sa) = Inr w
      \<and> record_pipeline_reverted uuid now (pipeline_name e) (parent_event_id ev) (sa\<lparr>fs := w\<rparr>) = Inr sc
      \<and> read_log sc = Some (Inr s')"
proof -
  from assms obtain sa where rl: "read_log s = Some (Inr sa)"
    and rest: "and_then (get_current_pipeline_name sa) (\<lambda>(pipeline_name', s).
       if \<not> truthy pipeline_name' then Some (Inl (AssertionError, s))
       else
         (case event_data s of
            None \<Rightarrow> Some (Inl (TypeError, s))
          | Some data \<Rightarrow>
              (case find_started None data of
                 None \<Rightarrow> Some (Inl (AssertionError, s))
               | Some event \<Rightarrow>
                   if what event \<noteq> ''started'' then Some (Inl (AssertionError, s))
                   else if Some (pipeline_name event) \<noteq> pipeline_name'
                   then Some (Inl (AssertionError, s))
                   else
                     (let new_head_id = parent_event_id event in
                      case snapshot event of
                        None \<Rightarrow> Some (Inl (AttributeError, s))
                      | Some snapshot_dict \<Rightarrow>
                          and_then
                            (Some (then_do
                               (lift_fs s (restore_snapshot trash_now snapshot_dict (fs s)))
                               (\<lambda>s. record_pipeline_reverted uuid now (the pipeline_name')
                                       new_head_id s)))
                            (\<lambda>s. read_log s))))) = Some (Inr s')"
    unfolding revert_one_def and_then_eq_Some_Inr by blast
  note cp = get_current_pipeline_name_after_read_log [OF rl]
  from rest cp obtain e es where ed: "event_data sa = Some (e # es)"
    by (auto simp: truthy_def split: option.splits list.splits if_splits)
  from rest cp ed obtain ev where fs: "find_started None (e # es) = Some ev"
    by (auto split: option.splits if_splits)
  from rest cp ed fs have w: "what ev = ''started''" and pn: "pipeline_name ev = pipeline_name e"
    by (auto split: option.splits if_splits)
  from rest cp ed fs w pn obtain snap where sn: "snapshot ev = Some snap"
    by (auto simp: Let_def split: option.splits if_splits)
  from rest cp ed fs w pn sn obtain sc where
    a: "then_do (lift_fs sa (restore_snapshot trash_now snap (fs sa)))
          (\<lambda>s. record_pipeline_reverted uuid now (pipeline_name e) (parent_event_id ev) s) = Inr sc"
    and b: "read_log sc = Some (Inr s')"
    by (auto simp: Let_def and_then_eq_Some_Inr split: option.splits if_splits)
  from a obtain w where "restore_snapshot trash_now snap (fs sa) = Inr w"
    and "record_pipeline_reverted uuid now (pipeline_name e) (parent_event_id ev) (sa\<lparr>fs := w\<rparr>) = Inr sc"
    by (auto simp: then_do_eq_Inr lift_fs_Inr)
  with rl ed fs w pn sn b show ?thesis by blast
qed

lemma read_log_Some_data:
  assumes "read_log s = Some (Inr s')" and "event_data s' = Some data"
  shows "\<exists>h. head s = Some h \<and> is_chain (db s) h data \<and> log_exists s"
  using assms read_events_is_chain [of "db s" _ "[]"]
  by (auto simp: read_log_def Let_def log_exists_def split: if_splits option.splits sum.splits)

lemma read_log_of_chain:
  assumes "log_exists s" and "head s = Some h" and "is_chain (db s) h data"
  shows "read_log s = Some (Inr (s\<lparr>event_data := Some data\<rparr>))"
  using assms is_chain_read_events [of "db s" h data "[]"]
  by (simp add: read_log_def Let_def log_exists_def)

lemma record_pipeline_reverted_Inr:
  assumes "record_pipeline_reverted uuid now pn nh s = Inr s'"
  shows "\<exists>w r. s' = s\<lparr>fs := w,
                       event_data := Some (r # (case event_data s of Some (e # es) \<Rightarrow> e # es | _ \<Rightarrow> [])),
                       db := (db s)(uuid \<mapsto> r), head := Some nh\<rparr>
           \<and> what r = ''reverted'' \<and> event_id r = uuid \<and> pipeline_name r = pn
           \<and> parent_event_id r = (case event_data s of Some (e # es) \<Rightarrow> Some (event_id e) | _ \<Rightarrow> None)
           \<and> isdir w db_path"
proof -
  from assms obtain sa sb where
    a: "ensure_log_exists s = Inr sa"
    and b: "post_event uuid now pn ''reverted'' no_kwds sa = Inr sb"
    and c: "save_new_head nh sb = Inr s'"
    by (auto simp: record_pipeline_reverted_def then_do_eq_Inr)
  from ensure_log_exists_Inr [OF a] obtain w where sa: "sa = s\<lparr>fs := w\<rparr>" ..
  from post_event_Inr [OF b] have dir: "isdir (fs sa) db_path" by auto
  from post_event_Inr [OF b] obtain r where
    r: "new_Event uuid now pn ''reverted''
          (case event_data sa of Some (e # es) \<Rightarrow> Some (event_id e) | _ \<Rightarrow> None) no_kwds = Inr r"
    and sb: "sb = sa\<lparr>event_data := Some (r # (case event_data sa of Some (e # es) \<Rightarrow> e # es | _ \<Rightarrow> [])),
                    db := (db sa)(uuid \<mapsto> r), head := Some (Some uuid)\<rparr>"
    by auto
  from c have s': "s' = sb\<lparr>head := Some nh\<rparr>"
    by (auto simp: save_new_head_def split: if_splits)
  from r have rf: "what r = ''reverted''" "event_id r = uuid" "pipeline_name r = pn"
      "parent_event_id r = (case event_data sa of Some (e # es) \<Rightarrow> Some (event_id e) | _ \<Rightarrow> None)"
    by (auto simp: new_Event_def split: if_splits)
  show ?thesis
    apply (rule exI [of _ w], rule exI [of _ r])
    using sa sb s' rf dir by simp
qed

lemma revert_one_effect:
  assumes "revert_one uuid now trash_now s = Some (Inr s')" and "db s uuid = None"
  shows "\<exists>h pre ev rest r.
      head s = Some h \<and> read_events (db s) h [] = Some (Inr (pre @ ev # rest))
      \<and> (\<forall>e \<in> set pre. what e \<noteq> ''started'') \<and> what ev = ''started''
      \<and> db s' = (db s)(uuid \<mapsto> r) \<and> what r = ''reverted'' \<and> event_id r = uuid
      \<and> parent_event_id r = Some (event_id (hd (pre @ [ev])))
      \<and> head s' = Some (parent_event_id ev)
      \<and> event_data s' = Some rest
      \<and> read_log s' = Some (Inr s')"
proof -
  from revert_one_Inr [OF assms(1)] obtain sa e es ev snap w sc where
    rl: "read_log s = Some (Inr sa)" and ed: "event_data sa = Some (e # es)"
    and fs: "find_started None (e # es) = Some ev" and wev: "what ev = ''started''"
    and rec: "record_pipeline_reverted uuid now (pipeline_name e) (parent_event_id ev)
                (sa\<lparr>fs := w\<rparr>) = Inr sc"
    and rl2: "read_log sc = Some (Inr s')"
    by blast
  from read_log_Some_data [OF rl ed] obtain h where
    h: "head s = Some h" and ch: "is_chain (db s) h (e # es)"
    by blast
  from read_log_Inr [OF rl] have sa: "db sa = db s" "head sa = head s" by auto
  from find_started_split [OF fs wev] obtain pre rest where
    split: "e # es = pre @ ev # rest" and pre: "\<forall>e \<in> set pre. what e \<noteq> ''started''"
    by auto
  from record_pipeline_reverted_Inr [OF rec] ed obtain w' r where
    sc: "sc = sa\<lparr>fs := w', event_data := Some (r # e # es), db := (db sa)(uuid \<mapsto> r),
                 head := Some (parent_event_id ev)\<rparr>"
    and r: "what r = ''reverted''" "event_id r = uuid" "parent_event_id r = Some (event_id e)"
    and dir: "isdir w' db_path"
    by auto
  from ch split have "is_chain (db s) (parent_event_id ev) rest"
    using is_chain_suffix [of "db s" h pre ev rest] by simp
  with assms(2) have "is_chain ((db s)(uuid \<mapsto> r)) (parent_event_id ev) rest"
    by (simp add: is_chain_fresh)
  with sc sa have "is_chain (db sc) (parent_event_id ev) rest" by simp
  moreover from sc dir have "log_exists sc" by (simp add: log_exists_def)
  moreover from sc have "head sc = Some (parent_event_id ev)" by simp
  ultimately have "read_log sc = Some (Inr (sc\<lparr>event_data := Some rest\<rparr>))"
    using read_log_of_chain by blast
  with rl2 have s': "s' = sc\<lparr>event_data := Some rest\<rparr>" by simp
  have hd: "hd (pre @ [ev]) = e"
    using split by (cases pre) auto
  have re: "read_events (db s) h [] = Some (Inr (pre @ ev # rest))"
    using is_chain_read_events [OF ch, of "[]"] split by simp
  show ?thesis
    apply (rule exI [of _ h], rule exI [of _ pre], rule exI [of _ ev], rule exI [of _ rest],
        rule exI [of _ r])
    using h re pre wev s' sc sa r hd read_log_idem [OF rl2] by simp
qed


subsection \<open>Event files are only added\<close>

lemma final_state_simps [simp]: "final_state (Inl (e, s)) = s" "final_state (Inr s) = s"
  by (simp_all add: final_state_def)

lemma ensure_log_exists_final: "\<exists>w. final_state (ensure_log_exists s) = s\<lparr>fs := w\<rparr>"
  by (auto simp: ensure_log_exists_def lift_fs_def split: sum.splits prod.splits)

lemma post_event_frame:
  "i \<noteq> uuid \<Longrightarrow> db (final_state (post_event uuid now pn wh kw s)) i = db s i"
  by (auto simp: post_event_def Let_def sys_def save_event_def save_new_head_def new_Event_def
      split: option.splits list.splits)

lemma save_new_head_final: "db (final_state (save_new_head h s)) = db s"
  by (simp add: save_new_head_def)

lemma record_pipeline_finished_frame:
  assumes "i \<noteq> uuid"
  shows "db (final_state (record_pipeline_finished uuid now pn s)) i = db s i"
proof (cases "ensure_log_exists s")
  case (Inl a)
  with ensure_log_exists_final [of s] show ?thesis
    by (cases a) (auto simp: record_pipeline_finished_def)
next
  case (Inr s1)
  with ensure_log_exists_final [of s] post_event_frame [OF assms, of now pn "''finished''" no_kwds s1]
  show ?thesis by (auto simp: record_pipeline_finished_def)
qed

lemma record_pipeline_failed_frame:
  assumes "i \<noteq> uuid"
  shows "db (final_state (record_pipeline_failed uuid now pn kw s)) i = db s i"
proof (cases "ensure_log_exists s")
  case (Inl a)
  with ensure_log_exists_final [of s] show ?thesis
    by (cases a) (auto simp: record_pipeline_failed_def)
next
  case (Inr s1)
  with ensure_log_exists_final [of s] post_event_frame [OF assms, of now pn "''failed''" kw s1]
  show ?thesis by (auto simp: record_pipeline_failed_def)
qed

lemma record_pipeline_reverted_frame:
  assumes "i \<noteq> uuid"
  shows "db (final_state (record_pipeline_reverted uuid now pn h s)) i = db s i"
proof (cases "ensure_log_exists s")
  case (Inl a)
  with ensure_log_exists_final [of s] show ?thesis
    by (cases a) (auto simp: record_pipeline_reverted_def)
next
  case (Inr s1)
  note p = post_event_frame [OF assms, of now pn "''reverted''" no_kwds s1]
  show ?thesis
  proof (cases "post_event uuid now pn ''reverted'' no_kwds s1")
    case (Inl b)
    with Inr ensure_log_exists_final [of s] p show ?thesis
      by (cases b) (auto simp: record_pipeline_reverted_def)
  next
    case (Inr s2)
    with \<open>ensure_log_exists s = Inr s1\<close> ensure_log_exists_final [of s] p
      save_new_head_final [of h s2]
    show ?thesis by (auto simp: record_pipeline_reverted_def)
  qed
qed

lemma record_pipeline_started_frame:
  assumes "i \<noteq> uuid"
  shows "db (final_state (record_pipeline_started uuid now pn s)) i = db s i"
proof (cases "ensure_log_exists s")
  case (Inl a)
  with ensure_log_exists_final [of s] show ?thesis
    by (cases a) (auto simp: record_pipeline_started_def)
next
  case (Inr s1)
  then have s1: "db s1 = db s" using ensure_log_exists_final [of s] by auto
  show ?thesis
  proof (cases "create_snapshot (fs s1)")
    case (Inl b)
    with Inr s1 show ?thesis
      by (cases b) (auto simp: record_pipeline_started_def lift_snapshot_def)
  next
    case Inr2: (Inr c)
    obtain w snap where c: "c = (w, snap)" by (cases c)
    from post_event_frame [OF assms, of now pn "''started''"
        "no_kwds\<lparr>kw_snapshot := Some snap\<rparr>" "s1\<lparr>fs := w\<rparr>"]
    show ?thesis using Inr Inr2 c s1
      by (auto simp: record_pipeline_started_def lift_snapshot_def)
  qed
qed

lemma and_then_cases:
  assumes "and_then m f = Some r"
  shows "(\<exists>e. m = Some (Inl e) \<and> r = Inl e) \<or> (\<exists>x. m = Some (Inr x) \<and> f x = Some r)"
  using assms by (cases m) (auto simp: and_then_def split: sum.splits)

lemma read_log_final: "read_log s = Some r \<Longrightarrow> db (final_state r) = db s"
  by (auto simp: read_log_def Let_def split: if_splits option.splits sum.splits)

lemma get_current_pipeline_name_db:
  "get_current_pipeline_name s = Some (Inl (e, s')) \<Longrightarrow> db s' = db s"
  "get_current_pipeline_name s = Some (Inr (n, s')) \<Longrightarrow> db s' = db s"
  using read_log_final [of s]
  by (auto simp: get_current_pipeline_name_def dest!: and_then_cases
      split: if_splits option.splits list.splits)

lemma restore_then_revert_frame:
  assumes "i \<noteq> uuid"
  shows "db (final_state (then_do (lift_fs s r)
            (\<lambda>s. record_pipeline_reverted uuid now pn h s))) i = db s i"
proof (cases r)
  case (Inl a)
  then show ?thesis by (cases a) (simp add: lift_fs_def)
next
  case (Inr w)
  with record_pipeline_reverted_frame [OF assms, of now pn h "s\<lparr>fs := w\<rparr>"]
  show ?thesis by (simp add: lift_fs_def)
qed

lemma revert_one_frame:
  assumes "revert_one uuid now trash_now s = Some r" and "i \<noteq> uuid"
  shows "db (final_state r) i = db s i"
proof -
  from and_then_cases [OF assms(1) [unfolded revert_one_def]]
  consider (a) e where "read_log s = Some (Inl e)" "r = Inl e"
    | (b) s1 where "read_log s = Some (Inr s1)"
        "and_then (get_current_pipeline_name s1) (\<lambda>(pipeline_name', s).
       if \<not> truthy pipeline_name' then Some (Inl (AssertionError, s))
       else
         (case event_data s of
            None \<Rightarrow> Some (Inl (TypeError, s))
          | Some data \<Rightarrow>
              (case find_started None data of
                 None \<Rightarrow> Some (Inl (AssertionError, s))
               | Some event \<Rightarrow>
                   if what event \<noteq> ''started'' then Some (Inl (AssertionError, s))
                   else if Some (pipeline_name event) \<noteq> pipeline_name'
                   then Some (Inl (AssertionError, s))
                   else
                     (let new_head_id = parent_event_id event in
                      case snapshot event of
                        None \<Rightarrow> Some (Inl (AttributeError, s))
                      | Some snapshot_dict \<Rightarrow>
                          and_then
                            (Some (then_do
                               (lift_fs s (restore_snapshot trash_now snapshot_dict (fs s)))
                               (\<lambda>s. record_pipeline_reverted uuid now (the pipeline_name')
                                       new_head_id s)))
                            (\<lambda>s. read_log s))))) = Some r"
    by blast
  then show ?thesis
  proof cases
    case a
    with read_log_final [of s r] show ?thesis by simp
  next
    case b
    from read_log_final [OF b(1)] have s1: "db s1 = db s" by simp
    from and_then_cases [OF b(2)]
    show ?thesis
    proof (elim disjE exE conjE)
      fix e assume "get_current_pipeline_name s1 = Some (Inl e)" "r = Inl e"
      then show ?thesis using get_current_pipeline_name_db(1) [of s1 "fst e" "snd e"] s1
        by (cases e) simp
    next
      fix x
      assume g: "get_current_pipeline_name s1 = Some (Inr x)"
        and body: "(case x of (pipeline_name', s) \<Rightarrow>
       if \<not> truthy pipeline_name' then Some (Inl (AssertionError, s))
       else
         (case event_data s of
            None \<Rightarrow> Some (Inl (TypeError, s))
          | Some data \<Rightarrow>
              (case find_started None data of
                 None \<Rightarrow> Some (Inl (AssertionError, s))
               | Some event \<Rightarrow>
                   if what event \<noteq> ''started'' then Some (Inl (AssertionError, s))
                   else if Some (pipeline_name event) \<noteq> pipeline_name'
                   then Some (Inl (AssertionError, s))
                   else
                     (let new_head_id = parent_event_id event in
                      case snapshot event of
                        None \<Rightarrow> Some (Inl (AttributeError, s))
                      | Some snapshot_dict \<Rightarrow>
                          and_then
                            (Some (then_do
                               (lift_fs s (restore_snapshot trash_now snapshot_dict (fs s)))
                               (\<lambda>s. record_pipeline_reverted uuid now (the pipeline_name')
                                       new_head_id s)))
                            (\<lambda>s. read_log s))))) = Some r"
      obtain pn s2 where x: "x = (pn, s2)" by (cases x)
      from get_current_pipeline_name_db(2) [OF g [unfolded x]] s1 have s2: "db s2 = db s" by simp
      {
        fix ev sd
        assume r: "and_then
                    (Some (then_do (lift_fs s2 (restore_snapshot trash_now sd (fs s2)))
                       (\<lambda>s. record_pipeline_reverted uuid now (the pn) (parent_event_id ev) s)))
                    (\<lambda>s. read_log s) = Some r"
        note f = restore_then_revert_frame [OF assms(2), of s2
            "restore_snapshot trash_now sd (fs s2)" now "the pn" "parent_event_id ev"]
        from and_then_cases [OF r] have "db (final_state r) i = db s2 i"
        proof (elim disjE exE conjE)
          fix e assume "Some (then_do (lift_fs s2 (restore_snapshot trash_now sd (fs s2)))
                       (\<lambda>s. record_pipeline_reverted uuid now (the pn) (parent_event_id ev) s))
                 = Some (Inl e)" "r = Inl e"
          with f show ?thesis by (cases e) simp
        next
          fix s3 assume "Some (then_do (lift_fs s2 (restore_snapshot trash_now sd (fs s2)))
                       (\<lambda>s. record_pipeline_reverted uuid now (the pn) (parent_event_id ev) s))
                 = Some (Inr s3)" "read_log s3 = Some r"
          with f read_log_final [of s3 r] show ?thesis by simp
        qed
      }
      with body s2 show ?thesis
        unfolding x
        by (auto simp: Let_def split: if_splits option.splits)
    qed
  qed
qed

lemma record_pipeline_finished_Inr:
  assumes "record_pipeline_finished uuid now pn s = Inr s1"
  shows "\<exists>ev. event_id ev = uuid \<and> what ev = ''finished''
           \<and> db s1 = (db s)(uuid \<mapsto> ev) \<and> head s1 = Some (Some uuid)"
proof -
  from assms obtain sa where
    a: "ensure_log_exists s = Inr sa"
    and c: "post_event uuid now pn ''finished'' no_kwds sa = Inr s1"
    by (auto simp: record_pipeline_finished_def then_do_eq_Inr)
  from ensure_log_exists_Inr [OF a] have sa: "db sa = db s" by auto
  from post_event_Inr [OF c] obtain ev data where
    e: "new_Event uuid now pn ''finished''
          (case event_data sa of Some (e # es) \<Rightarrow> Some (event_id e) | _ \<Rightarrow> None) no_kwds = Inr ev"
    and s1: "s1 = sa\<lparr>event_data := Some (ev # data), db := (db sa)(uuid \<mapsto> ev),
                   head := Some (Some uuid)\<rparr>"
    by blast
  from e have "event_id ev = uuid" "what ev = ''finished''"
    by (auto simp: new_Event_def split: if_splits)
  with s1 sa show ?thesis by (intro exI [of _ ev]) simp
qed

lemma record_pipeline_failed_Inr:
  assumes "record_pipeline_failed uuid now pn kw s = Inr s1"
  shows "\<exists>ev. event_id ev = uuid \<and> what ev = ''failed''
           \<and> db s1 = (db s)(uuid \<mapsto> ev) \<and> head s1 = Some (Some uuid)"
proof -
  from assms obtain sa where
    a: "ensure_log_exists s = Inr sa"
    and c: "post_event uuid now pn ''failed'' kw sa = Inr s1"
    by (auto simp: record_pipeline_failed_def then_do_eq_Inr)
  from ensure_log_exists_Inr [OF a] have sa: "db sa = db s" by auto
  from post_event_Inr [OF c] obtain ev data where
    e: "new_Event uuid now pn ''failed''
          (case event_data sa of Some (e # es) \<Rightarrow> Some (event_id e) | _ \<Rightarrow> None) kw = Inr ev"
    and s1: "s1 = sa\<lparr>event_data := Some (ev # data), db := (db sa)(uuid \<mapsto> ev),
                   head := Some (Some uuid)\<rparr>"
    by blast
  from e have "event_id ev = uuid" "what ev = ''failed''"
    by (auto simp: new_Event_def split: if_splits)
  with s1 sa show ?thesis by (intro exI [of _ ev]) simp
qed


subsection \<open>The example states\<close>


lemma finished_reverted:
  "revert_one ''u3'' 30 ''T'' finished_state = Some (Inr reverted_state)"
  by (simp add: example_defs run_defs; simp add: fun_eq_iff)

lemma two_runs_revert:
  "revert_one ''u5'' 50 ''T'' two_runs_state = Some (Inr two_runs_reverted)"
  by (simp add: example_defs run_defs)

lemma reverted_status: "get_status reverted_state = Some (Inr (''never_run'', reverted_state))"
  by (simp add: example_defs run_defs)

lemma hello_load: "load_pipeline (pipelines hello_engine) ''hello'' = Inr hello_pipeline"
  by (simp add: hello_engine_def hello_pipeline_def engine_defs truthy_def)

lemma failed_ensure:
  "ensure_log_exists
     (debug hello_engine (''running '' @ ''hello'' @ '' in '' @ engine_context_path hello_engine)
        failed_state) = Inr failed_state"
  by (simp add: example_defs hello_engine_def debug_def run_defs)

lemma failed_read:
  "read_log failed_state =
     Some (Inr (failed_state\<lparr>event_data :=
        Some [mk_event ''failed'' ''u2'' (Some ''u1'') 20 None (Some 1),
              mk_event ''started'' ''u1'' None 10 (Some data_snapshot) None]\<rparr>))"
  by (simp add: example_defs run_defs)

lemma failed_status:
  "get_status (failed_state\<lparr>event_data :=
        Some [mk_event ''failed'' ''u2'' (Some ''u1'') 20 None (Some 1),
              mk_event ''started'' ''u1'' None 10 (Some data_snapshot) None]\<rparr>)
     = Some (Inr (''failed'', failed_state\<lparr>event_data :=
        Some [mk_event ''failed'' ''u2'' (Some ''u1'') 20 None (Some 1),
              mk_event ''started'' ''u1'' None 10 (Some data_snapshot) None]\<rparr>))"
  by (simp add: example_defs run_defs)

lemma finished_read:
  "read_log finished_state =
     Some (Inr (finished_state\<lparr>event_data :=
        Some [mk_event ''finished'' ''u2'' (Some ''u1'') 20 None None,
              mk_event ''started'' ''u1'' None 10 (Some data_snapshot) None]\<rparr>))"
  by (simp add: example_defs run_defs)

lemma two_runs_read:
  "read_log two_runs_state =
     Some (Inr (two_runs_state\<lparr>event_data :=
        Some [mk_event ''finished'' ''u4'' (Some ''u3'') 40 None None,
              mk_event ''started'' ''u3'' (Some ''u2'') 30 (Some []) None,
              mk_event ''finished'' ''u2'' (Some ''u1'') 20 None None,
              mk_event ''started'' ''u1'' None 10 (Some []) None]\<rparr>))"
  by (simp add: example_defs run_defs)

section \<open>Refusing to run\<close>

text \<open>
  Claim C6. When the pipeline has been loaded, the log directories are in place and the log
  has been read, and the current status is neither \<open>never_run\<close> nor \<open>finished\<close>, then
  the status is \<open>started\<close>, \<open>failed\<close> or \<open>reverted\<close> and \<open>run\<close> exits with code 1. The
  state in which it exits is the state after the log has been read, with one more line
  printed: the text \<open>Cannot run, because pipeline\<close>, the \<open>repr\<close> of the pipeline name of the
  newest event, \<open>has a status of\<close>, and the status in single quotes. Its event files and
  its head are those of the state before \<open>run\<close>: no event has been posted.
\<close>

theorem run_refuses_other_status:
  assumes "load_pipeline (pipelines self) name = Inr pipeline"
    and "ensure_log_exists
           (debug self (''running '' @ name @ '' in '' @ engine_context_path self) s) = Inr s1"
    and "read_log s1 = Some (Inr s2)"
    and "get_status s2 = Some (Inr (current_status, s3))"
    and "current_status \<noteq> ''never_run''" and "current_status \<noteq> ''finished''"
  shows "\<exists>e es s'. event_data s2 = Some (e # es) \<and> what e = current_status
           \<and> current_status \<in> {''started'', ''failed'', ''reverted''}
           \<and> run self launch uuid1 now1 uuid2 now2 name s = Some (Inl (SystemExit 1, s'))
           \<and> printed s' =
                printed s
                @ (if verbose self
                   then [''running '' @ name @ '' in '' @ engine_context_path self] else [])
                @ [''Cannot run, because pipeline '' @ repr (pipeline_name e)
                   @ '' has a status of '' @ [CHR 0x27] @ current_status @ [CHR 0x27]]
           \<and> db s' = db s \<and> head s' = head s \<and> fs s' = fs s1
           \<and> event_data s' = Some (e # es)"
proof -
  from assms(4) get_status_after_read_log [OF assms(3)]
  have st: "current_status = (case event_data s2 of Some (e # es) \<Rightarrow> what e | _ \<Rightarrow> ''never_run'')"
    and s3: "s3 = s2" by auto
  with assms(5) obtain e es where ed: "event_data s2 = Some (e # es)" and w: "what e = current_status"
    by (auto split: option.splits list.splits)
  from read_log_Some_data [OF assms(3) ed] have "what e \<in> set EVENT_TYPES" by auto
  with w assms(6) have ty: "current_status \<in> {''started'', ''failed'', ''reverted''}"
    by (auto simp: EVENT_TYPES_def)
  then have rp: "repr current_status = [CHR 0x27] @ current_status @ [CHR 0x27]"
    by (auto simp: repr_def repr_char_def Let_def)
  have cp: "get_current_pipeline_name s2 = Some (Inr (Some (pipeline_name e), s2))"
    using get_current_pipeline_name_after_read_log [OF assms(3)] ed by simp
  have gs: "get_status s2 = Some (Inr (current_status, s2))"
    using assms(4) s3 by simp
  let ?s' = "print_err (cannot_run_message (Some (pipeline_name e)) current_status) s2"
  have r: "run self launch uuid1 now1 uuid2 now2 name s = Some (Inl (SystemExit 1, ?s'))"
    unfolding run_def Let_def
    using assms(1,2,3,5,6) cp gs by (simp add: sys_def fail_def)
  from ensure_log_exists_Inr [OF assms(2)] read_log_Inr [OF assms(3)]
  obtain w x where s2: "s2 = (debug self (''running '' @ name @ '' in '' @ engine_context_path self) s)
                           \<lparr>fs := w, event_data := x\<rparr>"
    and s1: "fs s1 = w"
    by auto
  have "printed ?s' =
          printed s
          @ (if verbose self
             then [''running '' @ name @ '' in '' @ engine_context_path self] else [])
          @ [''Cannot run, because pipeline '' @ repr (pipeline_name e)
             @ '' has a status of '' @ [CHR 0x27] @ current_status @ [CHR 0x27]]"
    unfolding s2 by (simp add: print_err_def debug_def cannot_run_message_def repr_opt_def rp)
  moreover have "db ?s' = db s \<and> head ?s' = head s \<and> fs ?s' = fs s1"
    unfolding s2 using s1 by (simp add: print_err_def debug_def)
  moreover have "event_data ?s' = Some (e # es)"
    using ed by (simp add: print_err_def)
  ultimately show ?thesis using ed w ty r by blast
qed

theorem run_refuses_other_status_witness:
  "run hello_engine launch_false ''u3'' 30 ''u4'' 40 ''hello'' failed_state =
     Some (Inl (SystemExit 1,
       failed_state
         \<lparr>event_data :=
            Some [mk_event ''failed'' ''u2'' (Some ''u1'') 20 None (Some 1),
                  mk_event ''started'' ''u1'' None 10 (Some data_snapshot) None],
          printed :=
            [''Cannot run, because pipeline '' @ [CHR 0x27] @ ''hello'' @ [CHR 0x27]
             @ '' has a status of '' @ [CHR 0x27] @ ''failed'' @ [CHR 0x27]]\<rparr>))"
proof -
  from run_refuses_other_status [OF hello_load failed_ensure failed_read failed_status,
      of launch_false "''u3''" 30 "''u4''" 40]
  obtain e es s' where
    a: "Some [mk_event ''failed'' ''u2'' (Some ''u1'') 20 None (Some 1),
              mk_event ''started'' ''u1'' None 10 (Some data_snapshot) None] = Some (e # es)"
    and r: "run hello_engine launch_false ''u3'' 30 ''u4'' 40 ''hello'' failed_state
              = Some (Inl (SystemExit 1, s'))"
    and p: "printed s' =
              printed failed_state
              @ (if verbose hello_engine
                 then [''running '' @ ''hello'' @ '' in '' @ engine_context_path hello_engine]
                 else [])
              @ [''Cannot run, because pipeline '' @ repr (pipeline_name e)
                 @ '' has a status of '' @ [CHR 0x27] @ ''failed'' @ [CHR 0x27]]"
    and d: "db s' = db failed_state" "head s' = head failed_state"
      "fs s' = fs failed_state" "event_data s' = Some (e # es)"
    by auto
  from a have e: "pipeline_name e = ''hello''" by (auto simp: mk_event_def)
  have "s' = failed_state
         \<lparr>event_data :=
            Some [mk_event ''failed'' ''u2'' (Some ''u1'') 20 None (Some 1),
                  mk_event ''started'' ''u1'' None 10 (Some data_snapshot) None],
          printed :=
            [''Cannot run, because pipeline '' @ [CHR 0x27] @ ''hello'' @ [CHR 0x27]
             @ '' has a status of '' @ [CHR 0x27] @ ''failed'' @ [CHR 0x27]]\<rparr>"
    using p d a e
    by (cases s') (simp add: failed_state_def hello_engine_def repr_def repr_char_def Let_def)
  with r show ?thesis by simp
qed

section \<open>The single-task executor\<close>









section \<open>Reverting\<close>

text \<open>
  Claim C1, as stated, at the state after one finished run: \<open>revert_one\<close> returns, and
  \<open>get_status\<close> then returns \<open>never_run\<close>, not \<open>reverted\<close>.
\<close>

theorem revert_one_status_counterexample:
  "read_log finished_state =
     Some (Inr (finished_state\<lparr>event_data :=
        Some [mk_event ''finished'' ''u2'' (Some ''u1'') 20 None None,
              mk_event ''started'' ''u1'' None 10 (Some data_snapshot) None]\<rparr>))
   \<and> revert_one ''u3'' 30 ''T'' finished_state = Some (Inr reverted_state)
   \<and> get_status reverted_state = Some (Inr (''never_run'', reverted_state))
   \<and> ''never_run'' \<noteq> ''reverted''"
  using finished_read finished_reverted reverted_status by simp

text \<open>
  Claim C1, amended. When \<open>revert_one\<close> returns, having posted its event under an id
  that no event file had, the head holds the parent id of the newest \<open>started\<close> event of
  the chain, and \<open>get_status\<close> returns the status of the chain below that event:
  \<open>never_run\<close> when the \<open>started\<close> event was the first event, and otherwise what its
  parent event records.
\<close>

theorem revert_one_status:
  assumes "revert_one uuid now trash_now s = Some (Inr s')" and "db s uuid = None"
  shows "\<exists>h pre ev rest.
      head s = Some h \<and> read_events (db s) h [] = Some (Inr (pre @ ev # rest))
      \<and> (\<forall>e \<in> set pre. what e \<noteq> ''started'') \<and> what ev = ''started''
      \<and> head s' = Some (parent_event_id ev)
      \<and> event_data s' = Some rest
      \<and> get_status s' =
           Some (Inr (case rest of [] \<Rightarrow> ''never_run'' | e # es \<Rightarrow> what e, s'))"
proof -
  from revert_one_effect [OF assms] obtain h pre ev rest where
    a: "head s = Some h" "read_events (db s) h [] = Some (Inr (pre @ ev # rest))"
      "\<forall>e \<in> set pre. what e \<noteq> ''started''" "what ev = ''started''"
      "head s' = Some (parent_event_id ev)" "event_data s' = Some rest"
    and rl: "read_log s' = Some (Inr s')"
    by blast
  from get_status_after_read_log [OF rl] a(6)
  have "get_status s' = Some (Inr (case rest of [] \<Rightarrow> ''never_run'' | e # es \<Rightarrow> what e, s'))"
    by (cases rest) simp_all
  with a show ?thesis by blast
qed

lemma finished_fresh: "db finished_state ''u3'' = None"
  by (simp add: example_defs)

theorem revert_one_status_witness:
  "revert_one ''u3'' 30 ''T'' finished_state = Some (Inr reverted_state)
   \<and> db finished_state ''u3'' = None
   \<and> (\<exists>h pre ev rest.
        head finished_state = Some h
        \<and> read_events (db finished_state) h [] = Some (Inr (pre @ ev # rest))
        \<and> (\<forall>e \<in> set pre. what e \<noteq> ''started'') \<and> what ev = ''started''
        \<and> head reverted_state = Some (parent_event_id ev)
        \<and> event_data reverted_state = Some rest
        \<and> get_status reverted_state =
             Some (Inr (case rest of [] \<Rightarrow> ''never_run'' | e # es \<Rightarrow> what e, reverted_state)))"
  using revert_one_status [OF finished_reverted finished_fresh] finished_reverted finished_fresh
  by blast

text \<open>
  Claim C2, as stated, at the state after two finished runs: after \<open>revert_one\<close> the head
  names the event \<open>u2\<close>, the \<open>finished\<close> event of the first run in the middle of the
  chain, and not the new \<open>reverted\<close> event \<open>u5\<close>.
\<close>

theorem revert_one_head_counterexample:
  "read_log two_runs_state =
     Some (Inr (two_runs_state\<lparr>event_data :=
        Some [mk_event ''finished'' ''u4'' (Some ''u3'') 40 None None,
              mk_event ''started'' ''u3'' (Some ''u2'') 30 (Some []) None,
              mk_event ''finished'' ''u2'' (Some ''u1'') 20 None None,
              mk_event ''started'' ''u1'' None 10 (Some []) None]\<rparr>))
   \<and> revert_one ''u5'' 50 ''T'' two_runs_state = Some (Inr two_runs_reverted)
   \<and> map_option what (db two_runs_reverted ''u5'') = Some ''reverted''
   \<and> head two_runs_reverted = Some (Some ''u2'')
   \<and> head two_runs_reverted \<noteq> Some (Some ''u5'')"
  using two_runs_read two_runs_revert by (simp add: example_defs)

text \<open>
  Claim C2, amended. Let \<open>uuid\<close> be a non-empty id that no event file has. Whatever the
  outcome of \<open>record_pipeline_started\<close>, \<open>record_pipeline_finished\<close>,
  \<open>record_pipeline_failed\<close>, \<open>record_pipeline_reverted\<close> and \<open>revert_one\<close>, posting
  under \<open>uuid\<close>, the event files under all other ids are as before: every existing event
  file is as it was. When one of the first three returns, it has added one event file, the
  new event, and the head names it. When \<open>revert_one\<close> returns, it has added one event
  file, the \<open>reverted\<close> event whose parent is the newest event of the chain, and has then
  set the head to the parent id of the newest \<open>started\<close> event: the head does not name
  the \<open>reverted\<close> event.
\<close>

theorem event_log_append_only:
  assumes "db s uuid = None" and "uuid \<noteq> []"
  shows
   "(\<forall>r \<in> {record_pipeline_started uuid now pn s, record_pipeline_finished uuid now pn s,
            record_pipeline_failed uuid now pn kw s,
            record_pipeline_reverted uuid now pn new_head s}.
       (\<forall>i. i \<noteq> uuid \<longrightarrow> db (final_state r) i = db s i)
       \<and> (\<forall>i ev. db s i = Some ev \<longrightarrow> db (final_state r) i = Some ev))
    \<and> (\<forall>r \<in> {record_pipeline_started uuid now pn s, record_pipeline_finished uuid now pn s,
              record_pipeline_failed uuid now pn kw s}.
         \<forall>s'. r = Inr s' \<longrightarrow>
           (\<exists>ev. db s' = (db s)(uuid \<mapsto> ev) \<and> event_id ev = uuid
                 \<and> head s' = Some (Some uuid)))
    \<and> (\<forall>r. revert_one uuid now trash_now s = Some r \<longrightarrow>
         (\<forall>i. i \<noteq> uuid \<longrightarrow> db (final_state r) i = db s i)
         \<and> (\<forall>i ev. db s i = Some ev \<longrightarrow> db (final_state r) i = Some ev))
    \<and> (\<forall>s'. revert_one uuid now trash_now s = Some (Inr s') \<longrightarrow>
         (\<exists>h pre ev rest r.
            head s = Some h \<and> read_events (db s) h [] = Some (Inr (pre @ ev # rest))
            \<and> (\<forall>e \<in> set pre. what e \<noteq> ''started'') \<and> what ev = ''started''
            \<and> db s' = (db s)(uuid \<mapsto> r)
            \<and> what r = ''reverted'' \<and> event_id r = uuid
            \<and> parent_event_id r = Some (event_id (hd (pre @ [ev])))
            \<and> head s' = Some (parent_event_id ev)
            \<and> head s' \<noteq> Some (Some uuid)))"
proof (intro conjI ballI allI impI)
  fix r i
  assume "r \<in> {record_pipeline_started uuid now pn s, record_pipeline_finished uuid now pn s,
            record_pipeline_failed uuid now pn kw s,
            record_pipeline_reverted uuid now pn new_head s}" "i \<noteq> uuid"
  then show "db (final_state r) i = db s i"
    using record_pipeline_started_frame [of i uuid now pn s]
      record_pipeline_finished_frame [of i uuid now pn s]
      record_pipeline_failed_frame [of i uuid now pn kw s]
      record_pipeline_reverted_frame [of i uuid now pn new_head s]
    by auto
next
  fix r i ev
  assume "r \<in> {record_pipeline_started uuid now pn s, record_pipeline_finished uuid now pn s,
            record_pipeline_failed uuid now pn kw s,
            record_pipeline_reverted uuid now pn new_head s}" "db s i = Some ev"
  moreover from \<open>db s i = Some ev\<close> assms(1) have "i \<noteq> uuid" by auto
  ultimately show "db (final_state r) i = Some ev"
    using record_pipeline_started_frame [of i uuid now pn s]
      record_pipeline_finished_frame [of i uuid now pn s]
      record_pipeline_failed_frame [of i uuid now pn kw s]
      record_pipeline_reverted_frame [of i uuid now pn new_head s]
    by auto
next
  fix r s'
  assume "r \<in> {record_pipeline_started uuid now pn s, record_pipeline_finished uuid now pn s,
              record_pipeline_failed uuid now pn kw s}" "r = Inr s'"
  then show "\<exists>ev. db s' = (db s)(uuid \<mapsto> ev) \<and> event_id ev = uuid
                 \<and> head s' = Some (Some uuid)"
    using record_pipeline_started_Inr [of uuid now pn s s']
      record_pipeline_finished_Inr [of uuid now pn s s']
      record_pipeline_failed_Inr [of uuid now pn kw s s']
    by auto
next
  fix r i
  assume "revert_one uuid now trash_now s = Some r" "i \<noteq> uuid"
  then show "db (final_state r) i = db s i" by (rule revert_one_frame)
next
  fix r i ev
  assume a: "revert_one uuid now trash_now s = Some r" "db s i = Some ev"
  with assms(1) have "i \<noteq> uuid" by auto
  from revert_one_frame [OF a(1) this] a(2) show "db (final_state r) i = Some ev" by simp
next
  fix s'
  assume ro: "revert_one uuid now trash_now s = Some (Inr s')"
  from revert_one_effect [OF ro assms(1)] obtain h pre ev rest r where
    a: "head s = Some h" "read_events (db s) h [] = Some (Inr (pre @ ev # rest))"
      "\<forall>e \<in> set pre. what e \<noteq> ''started''" "what ev = ''started''"
      "db s' = (db s)(uuid \<mapsto> r)" "what r = ''reverted''" "event_id r = uuid"
      "parent_event_id r = Some (event_id (hd (pre @ [ev])))"
      "head s' = Some (parent_event_id ev)" "event_data s' = Some rest"
    by blast
  have neq: "parent_event_id ev \<noteq> Some uuid"
  proof
    assume p: "parent_event_id ev = Some uuid"
    from read_events_is_chain [OF a(2)] have "is_chain (db s) h (pre @ ev # rest)" by simp
    then have "is_chain (db s) (parent_event_id ev) rest" by (rule is_chain_suffix)
    with p assms show False
      by (cases rest) (auto simp: truthy_def)
  qed
  with a(9) have "head s' \<noteq> Some (Some uuid)" by simp
  with a show "\<exists>h pre ev rest r.
            head s = Some h \<and> read_events (db s) h [] = Some (Inr (pre @ ev # rest))
            \<and> (\<forall>e \<in> set pre. what e \<noteq> ''started'') \<and> what ev = ''started''
            \<and> db s' = (db s)(uuid \<mapsto> r)
            \<and> what r = ''reverted'' \<and> event_id r = uuid
            \<and> parent_event_id r = Some (event_id (hd (pre @ [ev])))
            \<and> head s' = Some (parent_event_id ev)
            \<and> head s' \<noteq> Some (Some uuid)" by blast
qed


lemma two_runs_fresh: "db two_runs_state ''u5'' = None"
  by (simp add: example_defs)

lemma two_runs_finished_again:
  "record_pipeline_finished ''u5'' 50 ''hello'' two_runs_state =
     Inr (two_runs_state
       \<lparr>db := (db two_runs_state)(''u5'' \<mapsto> mk_event ''finished'' ''u5'' None 50 None None),
        head := Some (Some ''u5''),
        event_data := Some [mk_event ''finished'' ''u5'' None 50 None None]\<rparr>)"
  by (simp add: example_defs run_defs)

theorem event_log_append_only_witness:
  "db two_runs_state ''u5'' = None \<and> ''u5'' \<noteq> []
   \<and> revert_one ''u5'' 50 ''T'' two_runs_state = Some (Inr two_runs_reverted)
   \<and> map_option what (db two_runs_reverted ''u5'') = Some ''reverted''
   \<and> db two_runs_reverted ''u4'' = Some (mk_event ''finished'' ''u4'' (Some ''u3'') 40 None None)
   \<and> head two_runs_reverted = Some (Some ''u2'')
   \<and> (\<exists>s'. record_pipeline_finished ''u5'' 50 ''hello'' two_runs_state = Inr s'
         \<and> db s' ''u4'' = Some (mk_event ''finished'' ''u4'' (Some ''u3'') 40 None None)
         \<and> map_option what (db s' ''u5'') = Some ''finished''
         \<and> head s' = Some (Some ''u5''))"
proof -
  have ne: "''u5'' \<noteq> []" by simp
  have u4: "db two_runs_state ''u4'' = Some (mk_event ''finished'' ''u4'' (Some ''u3'') 40 None None)"
    by (simp add: example_defs)
  note t = event_log_append_only [OF two_runs_fresh ne, of 50 "''hello''" no_kwds None "''T''"]
  from t two_runs_revert u4
  have a: "db two_runs_reverted ''u4'' = Some (mk_event ''finished'' ''u4'' (Some ''u3'') 40 None None)"
    by (simp add: final_state_def)
  from t two_runs_finished_again u4
  have b: "\<exists>s'. record_pipeline_finished ''u5'' 50 ''hello'' two_runs_state = Inr s'
         \<and> db s' ''u4'' = Some (mk_event ''finished'' ''u4'' (Some ''u3'') 40 None None)
         \<and> head s' = Some (Some ''u5'')"
    by (simp add: example_defs)
  then have b': "\<exists>s'. record_pipeline_finished ''u5'' 50 ''hello'' two_runs_state = Inr s'
         \<and> db s' ''u4'' = Some (mk_event ''finished'' ''u4'' (Some ''u3'') 40 None None)
         \<and> map_option what (db s' ''u5'') = Some ''finished''
         \<and> head s' = Some (Some ''u5'')"
    using two_runs_finished_again by (auto simp: mk_event_def)
  from a b' two_runs_revert two_runs_fresh ne show ?thesis
    by (simp add: two_runs_reverted_def mk_event_def)
qed

end
